theory Spec2Isabelle
  imports Main "HOL-Library.Sublist"
begin

section \<open>Errors\<close>

text \<open>
  Every failure of the source is a thrown JavaScript error object. The services throw
  \<open>new Error(msg)\<close>; reading a property of \<open>undefined\<close> or \<open>null\<close> throws a
  \<open>TypeError\<close>; a failing \<open>fs\<close> call rejects with an error that carries a message.
  A wrapper such as \<open>getLLMResponse\<close> only reads \<open>error.message\<close>.
\<close>

datatype error = Error (message: string) | TypeError (message: string)

section \<open>FileMessageStorage\<close>

text \<open>
  A stored record is the object \<open>{ id, ...message, timestamp }\<close> that \<open>addMessage\<close>
  builds. The fields spread from the argument are kept together as \<open>body\<close>: the
  callers of this repository pass \<open>{content, role, timestamp}\<close> (chat turns) or
  \<open>{title, content, timestamp}\<close> (request log entries), never an \<open>id\<close>.
\<close>

record 'a stored =
  msg_id :: int
  body :: 'a
  timestamp :: string

text \<open>
  The argument of \<open>addMessage\<close>. Its timestamp may be missing (\<open>None\<close>) or the
  empty string; both are falsy in \<open>message.timestamp || new Date().toISOString()\<close>.
\<close>

record 'a message =
  payload :: 'a
  timestamp_opt :: "string option"

text \<open>
  The JSON file behind one storage object, as \<open>readMessages\<close> sees it:
  \<open>fs.readFile\<close> rejects (\<open>Unreadable\<close>), or the text is not JSON (\<open>Garbage\<close>), or it
  parses to the array of records. \<open>writable\<close> tells whether \<open>fs.writeFile\<close> succeeds.
\<close>

datatype 'a file_data = Unreadable | Garbage | Json "'a stored list"

record 'a storage =
  contents :: "'a file_data"
  writable :: bool

definition readMessages :: "'a storage \<Rightarrow> error + 'a stored list" where
  "readMessages st =
     (case contents st of
        Unreadable \<Rightarrow> Inl (Error ''ENOENT: no such file or directory'')
      | Garbage \<Rightarrow> Inr []
      | Json messages \<Rightarrow> Inr messages)"

definition writeMessages :: "'a stored list \<Rightarrow> 'a storage \<Rightarrow> (error + unit) \<times> 'a storage" where
  "writeMessages messages st =
     (if writable st then (Inr (), st\<lparr>contents := Json messages\<rparr>)
      else (Inl (Error ''EACCES: permission denied''), st))"

text \<open>\<open>messages.length > 0 ? Math.max(...messages.map(m => m.id)) : 0\<close>\<close>

definition maxId :: "'a stored list \<Rightarrow> int" where
  "maxId messages = (case map msg_id messages of [] \<Rightarrow> 0 | i # is \<Rightarrow> fold max is i)"

text \<open>\<open>now\<close> is the reading of the clock, \<open>new Date().toISOString()\<close>.\<close>

definition addMessage ::
  "string \<Rightarrow> 'a message \<Rightarrow> 'a storage \<Rightarrow> (error + 'a stored) \<times> 'a storage" where
  "addMessage now m st =
     (case readMessages st of
        Inl e \<Rightarrow> (Inl e, st)
      | Inr messages \<Rightarrow>
          (let newMessage =
                 \<lparr>msg_id = maxId messages + 1,
                  body = payload m,
                  timestamp = (case timestamp_opt m of
                                 None \<Rightarrow> now
                               | Some t \<Rightarrow> if t = [] then now else t)\<rparr>
           in case writeMessages (messages @ [newMessage]) st of
                (Inl e, st') \<Rightarrow> (Inl e, st')
              | (Inr _, st') \<Rightarrow> (Inr newMessage, st')))"

definition clearMessages :: "'a storage \<Rightarrow> (error + unit) \<times> 'a storage" where
  "clearMessages st = writeMessages [] st"

text \<open>
  \<open>messages.slice(k)\<close>: a negative start counts from the end and is clamped at the
  front, a start past the end gives the empty array.
\<close>

definition slice_from :: "int \<Rightarrow> 'a list \<Rightarrow> 'a list" where
  "slice_from k xs =
     (if k < 0 then drop (nat (int (length xs) + k)) xs else drop (nat k) xs)"

text \<open>
  \<open>quantity\<close> is \<open>None\<close> for \<open>null\<close> (and for \<open>NaN\<close>, which is falsy too); the test
  \<open>quantity && typeof quantity === 'number'\<close> holds for every number but \<open>0\<close>.
\<close>

definition getMessages ::
  "int option \<Rightarrow> bool \<Rightarrow> 'a storage \<Rightarrow> error + 'a stored list" where
  "getMessages quantity reverseOrder st =
     (case readMessages st of
        Inl e \<Rightarrow> Inl e
      | Inr messages \<Rightarrow>
          (case quantity of
             Some q \<Rightarrow>
               if q \<noteq> 0 then
                 (let recentMessages = slice_from (- q) messages
                  in Inr (if reverseOrder then rev recentMessages else recentMessages))
               else Inr (if reverseOrder then rev messages else messages)
           | None \<Rightarrow> Inr (if reverseOrder then rev messages else messages)))"

subsection \<open>Sequences of store calls\<close>

datatype 'a store_op = AddMessage "'a message" | ClearMessages

text \<open>
  Runs the calls one after the other on the same storage and collects the records that
  the \<open>addMessage\<close> calls return; the first rejected call ends the run.
\<close>

fun run_ops ::
  "string \<Rightarrow> 'a store_op list \<Rightarrow> 'a storage \<Rightarrow> (error + 'a stored list) \<times> 'a storage" where
  "run_ops now [] st = (Inr [], st)"
| "run_ops now (AddMessage m # ops) st =
     (case addMessage now m st of
        (Inl e, st') \<Rightarrow> (Inl e, st')
      | (Inr r, st') \<Rightarrow>
          (case run_ops now ops st' of
             (Inl e, st'') \<Rightarrow> (Inl e, st'')
           | (Inr rs, st'') \<Rightarrow> (Inr (r # rs), st'')))"
| "run_ops now (ClearMessages # ops) st =
     (case clearMessages st of
        (Inl e, st') \<Rightarrow> (Inl e, st')
      | (Inr _, st') \<Rightarrow> run_ops now ops st')"

text \<open>
  The ids the specification expects from a run: a counter that each append increments
  by one and each clear resets to zero.
\<close>

fun expected_ids :: "int \<Rightarrow> 'a store_op list \<Rightarrow> int list" where
  "expected_ids c [] = []"
| "expected_ids c (AddMessage m # ops) = (c + 1) # expected_ids (c + 1) ops"
| "expected_ids c (ClearMessages # ops) = expected_ids 0 ops"

section \<open>Prompts, requests and responses\<close>

text \<open>A role-tagged message, \<open>{ role, content }\<close>; a chat turn is a stored one.\<close>

record chat_msg =
  role :: string
  content :: string

text \<open>The body \<open>{ messages, model }\<close> that \<open>sendMessage\<close> posts (no further options).\<close>

record llm_request =
  messages :: "chat_msg list"
  model :: string

text \<open>
  \<open>response.data\<close> as the services inspect it: a falsy value (\<open>NoData\<close>), or an object
  whose \<open>choices\<close> is missing (\<open>None\<close>) or an array; a choice may lack its \<open>message\<close>.
\<close>

datatype choice = Choice "chat_msg option"

datatype llm_response = NoData | Data "choice list option"

text \<open>
  The entry \<open>{ title, content: { request, response }, timestamp }\<close> of the request log,
  with the two fields of its \<open>content\<close> object side by side.
\<close>

record request_log =
  title :: string
  request :: llm_request
  response :: llm_response

text \<open>
  What surrounds the services: the clock, the configured model, the prompt files by name
  (\<open>fs.readFile\<close> rejects for a name outside the domain) and the completion endpoint, where
  \<open>axios.post\<close> either rejects with an error message or resolves with \<open>response.data\<close>.
\<close>

record env =
  clock :: string
  llm_model :: string
  prompts :: "string \<rightharpoonup> string"
  post :: "llm_request \<Rightarrow> string + llm_response"

text \<open>
  The two storage objects of \<open>index.js\<close> (the request storage is optional in every
  constructor) and the request bodies posted to the endpoint so far.
\<close>

record world =
  messageStorage :: "chat_msg storage"
  requestStorage :: "request_log storage option"
  posted :: "llm_request list"

subsection \<open>PromptService\<close>

definition loadPrompt :: "env \<Rightarrow> string \<Rightarrow> error + string" where
  "loadPrompt e promptName =
     (case prompts e promptName of
        None \<Rightarrow>
          Inl (Error (''Failed to load prompt '' @ [CHR 0x22] @ promptName @ [CHR 0x22] @
                      '': ENOENT: no such file or directory''))
      | Some text \<Rightarrow> Inr text)"

subsection \<open>LLMService\<close>

text \<open>
  \<open>s.split(sep)\<close> for a one-character separator, generalised to a set of separators: the
  string is cut at every separator, so that two separators in a row, or one at either
  end, give an empty piece; the empty string gives one empty piece.
\<close>

fun split_on :: "(char \<Rightarrow> bool) \<Rightarrow> string \<Rightarrow> string list" where
  "split_on P [] = [[]]"
| "split_on P (c # cs) =
     (if P c then [] # split_on P cs
      else (case split_on P cs of [] \<Rightarrow> [[c]] | w # ws \<Rightarrow> (c # w) # ws))"

text \<open>\<open>parts.join(' ')\<close>\<close>

fun join_space :: "string list \<Rightarrow> string" where
  "join_space [] = []"
| "join_space [w] = w"
| "join_space (w # v # ws) = w @ CHR '' '' # join_space (v # ws)"

text \<open>
  The title computed inside \<open>storeRequest\<close>:
  \<open>titleWords = lastUserMessage.split(' ').slice(0, 5).join(' ')\<close> and
  \<open>titleWords + (lastUserMessage.length > titleWords.length ? '...' : '')\<close>.
\<close>

definition titleWords :: "string \<Rightarrow> string" where
  "titleWords lastUserMessage =
     join_space (take 5 (split_on (\<lambda>c. c = CHR '' '') lastUserMessage))"

definition requestTitle :: "string \<Rightarrow> string" where
  "requestTitle lastUserMessage =
     titleWords lastUserMessage @
     (if length lastUserMessage > length (titleWords lastUserMessage) then ''...'' else [])"

text \<open>
  \<open>response.choices && response.choices.length > 0 ? response.choices[0].message.content : ''\<close>,
  which throws when \<open>response\<close> is null or the first choice has no message.
\<close>

definition responseContent :: "llm_response \<Rightarrow> error + string" where
  "responseContent responseData =
     (case responseData of
        NoData \<Rightarrow> Inl (TypeError ''Cannot read properties of null (reading 'choices')'')
      | Data None \<Rightarrow> Inr []
      | Data (Some []) \<Rightarrow> Inr []
      | Data (Some (Choice None # _)) \<Rightarrow>
          Inl (TypeError ''Cannot read properties of undefined (reading 'content')'')
      | Data (Some (Choice (Some m) # _)) \<Rightarrow> Inr (content m))"

text \<open>
  \<open>storeRequest\<close> never throws: whatever fails inside its \<open>try\<close> is logged and dropped,
  and without a request storage it does nothing.
\<close>

definition storeRequest :: "env \<Rightarrow> llm_request \<Rightarrow> llm_response \<Rightarrow> world \<Rightarrow> world" where
  "storeRequest e requestBody responseData w =
     (case requestStorage w of
        None \<Rightarrow> w
      | Some st \<Rightarrow>
          (let userMessages = filter (\<lambda>msg. role msg = ''user'') (messages requestBody);
               lastUserMessage =
                 (if length userMessages > 0 then content (last userMessages) else [])
           in case responseContent responseData of
                Inl err \<Rightarrow> w
              | Inr _ \<Rightarrow>
                  (case addMessage (clock e)
                          \<lparr>payload = \<lparr>title = requestTitle lastUserMessage,
                                      request = requestBody,
                                      response = responseData\<rparr>,
                           timestamp_opt = Some (clock e)\<rparr> st of
                     (_, st') \<Rightarrow> w\<lparr>requestStorage := Some st'\<rparr>)))"

definition sendMessage ::
  "env \<Rightarrow> chat_msg list \<Rightarrow> world \<Rightarrow> (error + llm_response) \<times> world" where
  "sendMessage e msgs w =
     (let requestBody = \<lparr>messages = msgs, model = llm_model e\<rparr>;
          w1 = w\<lparr>posted := posted w @ [requestBody]\<rparr>
      in case post e requestBody of
           Inl msg \<Rightarrow> (Inl (Error (''Failed to get LLM response: '' @ msg)), w1)
         | Inr responseData \<Rightarrow> (Inr responseData, storeRequest e requestBody responseData w1))"

subsection \<open>ChatService\<close>

text \<open>\<open>!content\<close> on a string: only the empty string is falsy.\<close>

definition validateUserMessage :: "string \<Rightarrow> error + unit" where
  "validateUserMessage userContent =
     (if userContent = [] then Inl (Error ''Message content is required'') else Inr ())"

definition storeUserMessage ::
  "env \<Rightarrow> string \<Rightarrow> string \<Rightarrow> world \<Rightarrow> (error + chat_msg stored) \<times> world" where
  "storeUserMessage e userContent userRole w =
     (case addMessage (clock e)
             \<lparr>payload = \<lparr>role = userRole, content = userContent\<rparr>,
              timestamp_opt = Some (clock e)\<rparr> (messageStorage w) of
        (r, st') \<Rightarrow> (r, w\<lparr>messageStorage := st'\<rparr>))"

text \<open>
  The \<open>try\<close> block loads the system prompt and reads the storage; whatever it throws
  sends control to the \<open>catch\<close> block, which reads the storage again and appends the new
  message itself. Only reads: the world is not changed.
\<close>

definition prepareConversationHistory ::
  "env \<Rightarrow> string \<Rightarrow> string \<Rightarrow> world \<Rightarrow> error + chat_msg list" where
  "prepareConversationHistory e userContent userRole w =
     (case (case loadPrompt e ''system.prompt.xml'' of
              Inl err \<Rightarrow> Inl err
            | Inr systemPrompt \<Rightarrow>
                (case getMessages None False (messageStorage w) of
                   Inl err \<Rightarrow> Inl err
                 | Inr previousMessages \<Rightarrow>
                     Inr (\<lparr>role = ''system'', content = systemPrompt\<rparr> #
                          map (\<lambda>msg. \<lparr>role = role (body msg), content = content (body msg)\<rparr>)
                            previousMessages))) of
        Inr history \<Rightarrow> Inr history
      | Inl err \<Rightarrow>
          (case getMessages None False (messageStorage w) of
             Inl err' \<Rightarrow> Inl err'
           | Inr previousMessages \<Rightarrow>
               Inr (map (\<lambda>msg. \<lparr>role = role (body msg), content = content (body msg)\<rparr>)
                      previousMessages @
                    [\<lparr>role = userRole, content = userContent\<rparr>])))"

definition validateLLMResponse :: "llm_response \<Rightarrow> error + unit" where
  "validateLLMResponse responseData =
     (case responseData of
        NoData \<Rightarrow> Inl (Error ''Invalid response from LLM service'')
      | Data None \<Rightarrow> Inl (Error ''Invalid response from LLM service'')
      | Data (Some cs) \<Rightarrow>
          if length cs = 0 then Inl (Error ''Invalid response from LLM service'')
          else Inr ())"

definition getLLMResponse ::
  "env \<Rightarrow> chat_msg list \<Rightarrow> world \<Rightarrow> (error + llm_response) \<times> world" where
  "getLLMResponse e msgs w =
     (case sendMessage e msgs w of
        (Inl err, w') \<Rightarrow> (Inl (Error (''LLM API call failed: '' @ message err)), w')
      | (Inr responseData, w') \<Rightarrow>
          (case validateLLMResponse responseData of
             Inl err \<Rightarrow> (Inl (Error (''LLM API call failed: '' @ message err)), w')
           | Inr _ \<Rightarrow> (Inr responseData, w')))"

text \<open>\<open>llmResponse.choices[0].message.content\<close>\<close>

definition extractAssistantContent :: "llm_response \<Rightarrow> error + string" where
  "extractAssistantContent llmResponse =
     (case llmResponse of
        NoData \<Rightarrow> Inl (TypeError ''Cannot read properties of null (reading 'choices')'')
      | Data None \<Rightarrow> Inl (TypeError ''Cannot read properties of undefined (reading '0')'')
      | Data (Some []) \<Rightarrow>
          Inl (TypeError ''Cannot read properties of undefined (reading 'message')'')
      | Data (Some (Choice None # _)) \<Rightarrow>
          Inl (TypeError ''Cannot read properties of undefined (reading 'content')'')
      | Data (Some (Choice (Some m) # _)) \<Rightarrow> Inr (content m))"

text \<open>The object \<open>{ content, role: 'assistant', timestamp }\<close> that a processed turn returns.\<close>

record assistant_reply =
  reply_content :: string
  reply_role :: string
  reply_timestamp :: string

definition storeAssistantMessage ::
  "env \<Rightarrow> string \<Rightarrow> world \<Rightarrow> (error + assistant_reply) \<times> world" where
  "storeAssistantMessage e responseText w =
     (case addMessage (clock e)
             \<lparr>payload = \<lparr>role = ''assistant'', content = responseText\<rparr>,
              timestamp_opt = Some (clock e)\<rparr> (messageStorage w) of
        (Inl err, st') \<Rightarrow> (Inl err, w\<lparr>messageStorage := st'\<rparr>)
      | (Inr assistantMessage, st') \<Rightarrow>
          (Inr \<lparr>reply_content = responseText, reply_role = ''assistant'',
                reply_timestamp = timestamp assistantMessage\<rparr>,
           w\<lparr>messageStorage := st'\<rparr>))"

definition processUserMessage ::
  "env \<Rightarrow> string \<Rightarrow> string \<Rightarrow> world \<Rightarrow> (error + assistant_reply) \<times> world" where
  "processUserMessage e userContent userRole w =
     (case validateUserMessage userContent of
        Inl err \<Rightarrow> (Inl err, w)
      | Inr _ \<Rightarrow>
     (case storeUserMessage e userContent userRole w of
        (Inl err, w1) \<Rightarrow> (Inl err, w1)
      | (Inr _, w1) \<Rightarrow>
     (case prepareConversationHistory e userContent userRole w1 of
        Inl err \<Rightarrow> (Inl err, w1)
      | Inr conversationHistory \<Rightarrow>
     (case getLLMResponse e conversationHistory w1 of
        (Inl err, w2) \<Rightarrow> (Inl err, w2)
      | (Inr llmResponse, w2) \<Rightarrow>
     (case extractAssistantContent llmResponse of
        Inl err \<Rightarrow> (Inl err, w2)
      | Inr responseText \<Rightarrow> storeAssistantMessage e responseText w2)))))"

definition getAllMessages :: "int option \<Rightarrow> world \<Rightarrow> error + chat_msg stored list" where
  "getAllMessages limit w = getMessages limit False (messageStorage w)"

text \<open>
  Both clears are started before either is awaited, so both run; \<open>Promise.all\<close> then
  rejects if one of them did. The welcome message is loaded and added inside a \<open>try\<close>
  whose \<open>catch\<close> only logs; on both paths the result is \<open>getAllMessages()\<close>.
\<close>

definition clearAllMessages :: "env \<Rightarrow> world \<Rightarrow> (error + chat_msg stored list) \<times> world" where
  "clearAllMessages e w =
     (case clearMessages (messageStorage w) of
        (r1, ms') \<Rightarrow>
     (case (case requestStorage w of
              Some st \<Rightarrow> (case clearMessages st of (r, st') \<Rightarrow> (r, Some st'))
            | None \<Rightarrow> (Inr (), None)) of
        (r2, rs') \<Rightarrow>
     (let w1 = w\<lparr>messageStorage := ms', requestStorage := rs'\<rparr>
      in case r1 of
           Inl err \<Rightarrow> (Inl err, w1)
         | Inr _ \<Rightarrow>
        (case r2 of
           Inl err \<Rightarrow> (Inl err, w1)
         | Inr _ \<Rightarrow>
             (let w2 =
                    (case loadPrompt e ''initial-message.html'' of
                       Inl err \<Rightarrow> w1
                     | Inr initialMessage \<Rightarrow>
                         (case addMessage (clock e)
                                 \<lparr>payload = \<lparr>role = ''assistant'', content = initialMessage\<rparr>,
                                  timestamp_opt = Some (clock e)\<rparr> (messageStorage w1) of
                            (_, st') \<Rightarrow> w1\<lparr>messageStorage := st'\<rparr>))
              in (getAllMessages None w2, w2))))))"

subsection \<open>The title as the specification words it\<close>

text \<open>
  The specification derives the title from the first five whitespace-separated words of
  the message: the maximal runs of characters that are not whitespace.
\<close>

definition is_whitespace :: "char \<Rightarrow> bool" where
  "is_whitespace c \<longleftrightarrow> c = CHR '' '' \<or> c = CHR 0x09 \<or> c = CHR 0x0A \<or> c = CHR 0x0D"

definition whitespace_words :: "string \<Rightarrow> string list" where
  "whitespace_words s = filter (\<lambda>w. w \<noteq> []) (split_on is_whitespace s)"

definition spec_title :: "string \<Rightarrow> string" where
  "spec_title s =
     (let t = join_space (take 5 (whitespace_words s))
      in t @ (if length s > length t then ''...'' else []))"

subsection \<open>A sample deployment\<close>

text \<open>
  A configuration on which the properties below are exercised: both prompt files exist
  and the endpoint answers every request with one well-formed choice; both storages
  start empty.
\<close>

definition sample_env :: env where
  "sample_env =
     \<lparr>clock = ''2025-01-01T00:00:00.000Z'',
      llm_model = ''gpt-4o-mini'',
      prompts = [''system.prompt.xml'' \<mapsto> ''Be brief.'',
                 ''initial-message.html'' \<mapsto> ''Welcome!''],
      post = (\<lambda>rq. Inr (Data (Some [Choice (Some \<lparr>role = ''assistant'',
                                                      content = ''hello''\<rparr>)])))\<rparr>"

definition sample_world :: world where
  "sample_world =
     \<lparr>messageStorage = \<lparr>contents = Json [], writable = True\<rparr>,
      requestStorage = Some \<lparr>contents = Json [], writable = True\<rparr>,
      posted = []\<rparr>"

section \<open>Properties of the storage\<close>

lemma fold_max_ge: "(a::int) \<le> fold max xs a"
  by (induction xs arbitrary: a) (auto intro: order_trans [OF max.cobounded2])

lemma fold_max_Max: "fold max xs (a::int) = Max (insert a (set xs))"
proof (induction xs arbitrary: a)
  case Nil
  show ?case by simp
next
  case (Cons x xs)
  have "Max (insert (max x a) (set xs)) = Max (insert a (insert x (set xs)))"
    by (cases "set xs = {}") (auto simp: max.commute max.left_commute max.assoc)
  with Cons show ?case by simp
qed

lemma maxId_Nil: "maxId [] = 0"
  by (simp add: maxId_def)

lemma maxId_Max: "xs \<noteq> [] \<Longrightarrow> maxId xs = Max (set (map msg_id xs))"
  by (cases xs) (simp_all add: maxId_def fold_max_Max)

lemma maxId_snoc:
  "msg_id r = maxId xs + 1 \<Longrightarrow> maxId (xs @ [r]) = maxId xs + 1"
proof (cases xs)
  case Nil
  assume "msg_id r = maxId xs + 1"
  with Nil show ?thesis by (simp add: maxId_def)
next
  case (Cons x ys)
  assume r: "msg_id r = maxId xs + 1"
  have "maxId (xs @ [r]) = max (msg_id r) (fold max (map msg_id ys) (msg_id x))"
    using Cons by (simp add: maxId_def)
  also have "fold max (map msg_id ys) (msg_id x) = maxId xs"
    using Cons by (simp add: maxId_def)
  finally show ?thesis using r by simp
qed

lemma addMessage_ok:
  assumes "readMessages st = Inr xs" and "writable st"
  shows "addMessage now m st =
           (Inr \<lparr>msg_id = maxId xs + 1, body = payload m,
                 timestamp = (case timestamp_opt m of None \<Rightarrow> now
                              | Some t \<Rightarrow> if t = [] then now else t)\<rparr>,
            st\<lparr>contents := Json (xs @ [\<lparr>msg_id = maxId xs + 1, body = payload m,
                 timestamp = (case timestamp_opt m of None \<Rightarrow> now
                              | Some t \<Rightarrow> if t = [] then now else t)\<rparr>])\<rparr>)"
  using assms by (simp add: addMessage_def writeMessages_def Let_def)

lemma readMessages_Json: "readMessages (st\<lparr>contents := Json xs\<rparr>) = Inr xs"
  by (simp add: readMessages_def)

lemma clearMessages_ok:
  "writable st \<Longrightarrow> clearMessages st = (Inr (), st\<lparr>contents := Json []\<rparr>)"
  by (simp add: clearMessages_def writeMessages_def)

lemma run_ops_ids:
  assumes "readMessages st = Inr xs" and "writable st"
  shows "\<exists>rs st'. run_ops now ops st = (Inr rs, st') \<and>
                  map msg_id rs = expected_ids (maxId xs) ops"
  using assms
proof (induction ops arbitrary: st xs)
  case Nil
  show ?case by simp
next
  case (Cons a ops)
  show ?case
  proof (cases a)
    case (AddMessage m)
    let ?r = "\<lparr>msg_id = maxId xs + 1, body = payload m,
               timestamp = (case timestamp_opt m of None \<Rightarrow> now
                            | Some t \<Rightarrow> if t = [] then now else t)\<rparr>"
    let ?st = "st\<lparr>contents := Json (xs @ [?r])\<rparr>"
    have add: "addMessage now m st = (Inr ?r, ?st)"
      using Cons.prems by (rule addMessage_ok)
    have "readMessages ?st = Inr (xs @ [?r])" by (rule readMessages_Json)
    moreover have "writable ?st" using Cons.prems by simp
    ultimately obtain rs st' where
      run: "run_ops now ops ?st = (Inr rs, st')" and
      ids: "map msg_id rs = expected_ids (maxId (xs @ [?r])) ops"
      using Cons.IH by blast
    have "maxId (xs @ [?r]) = maxId xs + 1" by (rule maxId_snoc) simp
    with AddMessage add run ids show ?thesis by simp
  next
    case ClearMessages
    let ?st = "st\<lparr>contents := Json []\<rparr>"
    have clr: "clearMessages st = (Inr (), ?st)"
      using Cons.prems by (simp add: clearMessages_ok)
    have "readMessages ?st = Inr []" by (rule readMessages_Json)
    moreover have "writable ?st" using Cons.prems by simp
    ultimately have "\<exists>rs st'. run_ops now ops ?st = (Inr rs, st') \<and>
                      map msg_id rs = expected_ids 0 ops"
      using Cons.IH [of ?st "[]"] by (simp add: maxId_Nil)
    with ClearMessages clr show ?thesis by (simp add: maxId_Nil)
  qed
qed

lemma expected_ids_appends:
  "expected_ids c (map AddMessage ms) = map (\<lambda>k. c + 1 + int k) [0..<length ms]"
proof (induction ms arbitrary: c)
  case Nil
  show ?case by simp
next
  case (Cons m ms)
  have "map (\<lambda>k. c + 1 + int k) [0..<length (m # ms)] =
        (c + 1) # map (\<lambda>k. c + 1 + int (Suc k)) [0..<length ms]"
    by (simp add: upt_conv_Cons map_Suc_upt [symmetric] del: upt_Suc)
  with Cons show ?case by (simp add: add.assoc add.commute)
qed

section \<open>The claims about the storage\<close>

lemma getMessages_all:
  "readMessages st = Inr xs \<Longrightarrow> getMessages None r st = Inr (if r then rev xs else xs)"
  by (simp add: getMessages_def)

lemma slice_from_last: "zs \<noteq> [] \<Longrightarrow> slice_from (- int (length zs)) (ys @ zs) = zs"
  by (simp add: slice_from_def)

lemma slice_from_beyond: "int (length xs) < N \<Longrightarrow> slice_from (- N) xs = xs"
  by (simp add: slice_from_def)

text \<open>
  Claim C2. On a storage whose file can be read and written, \<open>addMessage\<close> returns a
  record whose id is the largest id in the store plus one, and one when the store is
  empty; the new record is the last of the store and carries its largest id. Hence any
  sequence of \<open>addMessage\<close> and \<open>clearMessages\<close> calls returns the ids of a counter that
  starts at the largest stored id, goes up by one at each append and back to zero at each
  clear: consecutive appends return consecutive ids, and the appends after a clear
  return 1, 2, 3 and so on.
\<close>

theorem addMessage_ids_sequential:
  assumes "readMessages st = Inr xs" and "writable st"
  shows "(\<exists>r st'. addMessage now m st = (Inr r, st') \<and>
                   msg_id r = (if xs = [] then 1 else Max (set (map msg_id xs)) + 1) \<and>
                   readMessages st' = Inr (xs @ [r]) \<and>
                   Max (set (map msg_id (xs @ [r]))) = msg_id r) \<and>
         (\<exists>rs st'. run_ops now ops st = (Inr rs, st') \<and>
                    map msg_id rs = expected_ids (if xs = [] then 0 else Max (set (map msg_id xs))) ops) \<and>
         (\<exists>rs st'. run_ops now (map AddMessage ms) st = (Inr rs, st') \<and>
                    map msg_id rs =
                      map (\<lambda>k. (if xs = [] then 0 else Max (set (map msg_id xs))) + 1 + int k)
                        [0..<length ms]) \<and>
         (\<exists>rs st'. run_ops now (ClearMessages # map AddMessage ms) st = (Inr rs, st') \<and>
                    map msg_id rs = map (\<lambda>k. 1 + int k) [0..<length ms])"
proof -
  let ?c = "if xs = [] then 0 else Max (set (map msg_id xs))"
  have c: "maxId xs = ?c"
    by (simp add: maxId_Nil maxId_Max)
  let ?r = "\<lparr>msg_id = maxId xs + 1, body = payload m,
             timestamp = (case timestamp_opt m of None \<Rightarrow> now
                          | Some t \<Rightarrow> if t = [] then now else t)\<rparr>"
  have add: "addMessage now m st = (Inr ?r, st\<lparr>contents := Json (xs @ [?r])\<rparr>)"
    using assms by (rule addMessage_ok)
  have "maxId (xs @ [?r]) = maxId xs + 1"
    by (rule maxId_snoc) simp
  then have mx: "Max (set (map msg_id (xs @ [?r]))) = msg_id ?r"
    by (simp add: maxId_Max)
  have one: "\<exists>r st'. addMessage now m st = (Inr r, st') \<and>
                   msg_id r = (if xs = [] then 1 else Max (set (map msg_id xs)) + 1) \<and>
                   readMessages st' = Inr (xs @ [r]) \<and>
                   Max (set (map msg_id (xs @ [r]))) = msg_id r"
    using add mx c by (auto simp: readMessages_Json)
  have run: "\<exists>rs st'. run_ops now os st = (Inr rs, st') \<and>
                   map msg_id rs = expected_ids ?c os" for os
    using run_ops_ids [OF assms, of now os] c by simp
  have apps: "\<exists>rs st'. run_ops now (map AddMessage ms) st = (Inr rs, st') \<and>
                    map msg_id rs = map (\<lambda>k. ?c + 1 + int k) [0..<length ms]"
    using run [of "map AddMessage ms"] by (simp add: expected_ids_appends)
  have clr: "\<exists>rs st'. run_ops now (ClearMessages # map AddMessage ms) st = (Inr rs, st') \<and>
                    map msg_id rs = map (\<lambda>k. 1 + int k) [0..<length ms]"
    using run [of "ClearMessages # map AddMessage ms"] 
    by (simp add: expected_ids_appends del: run_ops.simps)
  from one run [of ops] apps clr show ?thesis by blast
qed

theorem addMessage_ids_sequential_witness:
  "readMessages \<lparr>contents = Json [\<lparr>msg_id = 4, body = ''hi'', timestamp = ''t0''\<rparr>], writable = True\<rparr>
     = Inr [\<lparr>msg_id = 4, body = ''hi'', timestamp = ''t0''\<rparr>] \<and>
   writable \<lparr>contents = Json [\<lparr>msg_id = 4, body = ''hi'', timestamp = ''t0''\<rparr>], writable = True\<rparr> \<and>
   (\<exists>rs st'. run_ops ''t1''
        [AddMessage \<lparr>payload = ''a'', timestamp_opt = None\<rparr>,
         AddMessage \<lparr>payload = ''b'', timestamp_opt = None\<rparr>,
         ClearMessages,
         AddMessage \<lparr>payload = ''c'', timestamp_opt = None\<rparr>]
        \<lparr>contents = Json [\<lparr>msg_id = 4, body = ''hi'', timestamp = ''t0''\<rparr>], writable = True\<rparr>
        = (Inr rs, st') \<and> map msg_id rs = [5, 6, 1])"
  using addMessage_ids_sequential
    [of "\<lparr>contents = Json [\<lparr>msg_id = 4, body = ''hi'', timestamp = ''t0''\<rparr>], writable = True\<rparr>"
        "[\<lparr>msg_id = 4, body = ''hi'', timestamp = ''t0''\<rparr>]" "''t1''" 
        "\<lparr>payload = ''a'', timestamp_opt = None\<rparr>"
        "[AddMessage \<lparr>payload = ''a'', timestamp_opt = None\<rparr>,
         AddMessage \<lparr>payload = ''b'', timestamp_opt = None\<rparr>,
         ClearMessages,
         AddMessage \<lparr>payload = ''c'', timestamp_opt = None\<rparr>]" "[]"]
  by (simp add: readMessages_def del: run_ops.simps)

text \<open>
  Claim C3. For a store holding the records \<open>xs\<close>: \<open>getMessages(null, false)\<close> returns
  \<open>xs\<close>, which is the order of the appends since \<open>addMessage\<close> puts its record last, and
  \<open>getMessages(null, true)\<close> returns the reverse. For any way of cutting \<open>xs\<close> into older
  records and a non-empty rest of \<open>N\<close> records, \<open>getMessages(N, false)\<close> returns that rest
  and \<open>getMessages(N, true)\<close> its reverse. A quantity above the size of the store, and the
  quantity 0, give the whole store.
\<close>

theorem getMessages_order:
  assumes "readMessages st = Inr xs"
  shows "getMessages None False st = Inr xs \<and>
         getMessages None True st = Inr (rev xs) \<and>
         (\<forall>ys zs. xs = ys @ zs \<and> zs \<noteq> [] \<longrightarrow>
            getMessages (Some (int (length zs))) False st = Inr zs \<and>
            getMessages (Some (int (length zs))) True st = Inr (rev zs)) \<and>
         (\<forall>N. int (length xs) < N \<longrightarrow>
            getMessages (Some N) False st = Inr xs \<and>
            getMessages (Some N) True st = Inr (rev xs)) \<and>
         getMessages (Some 0) False st = Inr xs \<and>
         getMessages (Some 0) True st = Inr (rev xs) \<and>
         (writable st \<longrightarrow>
            (\<exists>r st'. addMessage now m st = (Inr r, st') \<and>
                      getMessages None False st' = Inr (xs @ [r])))"
proof -
  have lastN: "getMessages (Some (int (length zs))) False st = Inr zs \<and>
               getMessages (Some (int (length zs))) True st = Inr (rev zs)"
    if "xs = ys @ zs" "zs \<noteq> []" for ys zs
    using assms that by (simp add: getMessages_def slice_from_last)
  have beyond: "getMessages (Some N) False st = Inr xs \<and>
                getMessages (Some N) True st = Inr (rev xs)"
    if "int (length xs) < N" for N
  proof -
    from that have "N \<noteq> 0" by auto
    with assms that show ?thesis by (simp add: getMessages_def slice_from_beyond)
  qed
  have zero: "getMessages (Some 0) False st = Inr xs \<and>
              getMessages (Some 0) True st = Inr (rev xs)"
    using assms by (simp add: getMessages_def)
  have app: "\<exists>r st'. addMessage now m st = (Inr r, st') \<and>
                      getMessages None False st' = Inr (xs @ [r])" if "writable st"
    using addMessage_ok [OF assms that, of now m]
    by (simp add: getMessages_all readMessages_Json)
  from lastN beyond zero app assms show ?thesis
    by (simp add: getMessages_all)
qed

theorem getMessages_order_witness:
  "readMessages \<lparr>contents = Json [\<lparr>msg_id = 1, body = ''a'', timestamp = ''t''\<rparr>,
                                  \<lparr>msg_id = 2, body = ''b'', timestamp = ''t''\<rparr>,
                                  \<lparr>msg_id = 3, body = ''c'', timestamp = ''t''\<rparr>],
                 writable = True\<rparr>
     = Inr [\<lparr>msg_id = 1, body = ''a'', timestamp = ''t''\<rparr>,
            \<lparr>msg_id = 2, body = ''b'', timestamp = ''t''\<rparr>,
            \<lparr>msg_id = 3, body = ''c'', timestamp = ''t''\<rparr>] \<and>
   getMessages (Some 2) True
     \<lparr>contents = Json [\<lparr>msg_id = 1, body = ''a'', timestamp = ''t''\<rparr>,
                        \<lparr>msg_id = 2, body = ''b'', timestamp = ''t''\<rparr>,
                        \<lparr>msg_id = 3, body = ''c'', timestamp = ''t''\<rparr>],
       writable = True\<rparr>
     = Inr [\<lparr>msg_id = 3, body = ''c'', timestamp = ''t''\<rparr>,
            \<lparr>msg_id = 2, body = ''b'', timestamp = ''t''\<rparr>]"
proof -
  let ?m1 = "\<lparr>msg_id = 1, body = ''a'', timestamp = ''t''\<rparr>"
  let ?m2 = "\<lparr>msg_id = 2, body = ''b'', timestamp = ''t''\<rparr>"
  let ?m3 = "\<lparr>msg_id = 3, body = ''c'', timestamp = ''t''\<rparr>"
  let ?st = "\<lparr>contents = Json [?m1, ?m2, ?m3], writable = True\<rparr>"
  have r: "readMessages ?st = Inr [?m1, ?m2, ?m3]"
    by (simp add: readMessages_def)
  from getMessages_order [OF r, of "''t''" "\<lparr>payload = ''d'', timestamp_opt = None\<rparr>"]
  have "\<forall>ys zs. [?m1, ?m2, ?m3] = ys @ zs \<and> zs \<noteq> [] \<longrightarrow>
          getMessages (Some (int (length zs))) False ?st = Inr zs \<and>
          getMessages (Some (int (length zs))) True ?st = Inr (rev zs)"
    by blast
  then have "[?m1, ?m2, ?m3] = [?m1] @ [?m2, ?m3] \<and> [?m2, ?m3] \<noteq> [] \<longrightarrow>
          getMessages (Some (int (length [?m2, ?m3]))) False ?st = Inr [?m2, ?m3] \<and>
          getMessages (Some (int (length [?m2, ?m3]))) True ?st = Inr (rev [?m2, ?m3])"
    by blast
  with r show ?thesis by simp
qed

section \<open>Properties of the chat service\<close>

lemma strip_body [simp]:
  "(\<lambda>msg. \<lparr>role = role (body msg), content = content (body msg)\<rparr>) = body"
  by (rule ext) simp

lemma storeUserMessage_ok:
  assumes "readMessages (messageStorage w) = Inr xs" and "writable (messageStorage w)"
  shows "storeUserMessage e c r w =
           (Inr \<lparr>msg_id = maxId xs + 1, body = \<lparr>role = r, content = c\<rparr>, timestamp = clock e\<rparr>,
            w\<lparr>messageStorage := (messageStorage w)\<lparr>contents :=
                 Json (xs @ [\<lparr>msg_id = maxId xs + 1, body = \<lparr>role = r, content = c\<rparr>,
                               timestamp = clock e\<rparr>])\<rparr>\<rparr>)"
  using addMessage_ok [OF assms, of "clock e"
      "\<lparr>payload = \<lparr>role = r, content = c\<rparr>, timestamp_opt = Some (clock e)\<rparr>"]
  by (simp add: storeUserMessage_def)

lemma storeAssistantMessage_ok:
  assumes "readMessages (messageStorage w) = Inr xs" and "writable (messageStorage w)"
  shows "storeAssistantMessage e c w =
           (Inr \<lparr>reply_content = c, reply_role = ''assistant'', reply_timestamp = clock e\<rparr>,
            w\<lparr>messageStorage := (messageStorage w)\<lparr>contents :=
                 Json (xs @ [\<lparr>msg_id = maxId xs + 1,
                               body = \<lparr>role = ''assistant'', content = c\<rparr>,
                               timestamp = clock e\<rparr>])\<rparr>\<rparr>)"
  using addMessage_ok [OF assms, of "clock e"
      "\<lparr>payload = \<lparr>role = ''assistant'', content = c\<rparr>, timestamp_opt = Some (clock e)\<rparr>"]
  by (simp add: storeAssistantMessage_def)

lemma prepare_with_prompt:
  assumes "prompts e ''system.prompt.xml'' = Some p"
    and "readMessages (messageStorage w) = Inr ys"
  shows "prepareConversationHistory e c r w =
           Inr (\<lparr>role = ''system'', content = p\<rparr> # map body ys)"
  using assms by (simp add: prepareConversationHistory_def loadPrompt_def getMessages_all)

lemma prepare_without_prompt:
  assumes "prompts e ''system.prompt.xml'' = None"
    and "readMessages (messageStorage w) = Inr ys"
  shows "prepareConversationHistory e c r w =
           Inr (map body ys @ [\<lparr>role = r, content = c\<rparr>])"
  using assms by (simp add: prepareConversationHistory_def loadPrompt_def getMessages_all)

lemma storeRequest_messageStorage [simp]:
  "messageStorage (storeRequest e rq d w) = messageStorage w"
  by (simp add: storeRequest_def Let_def split: option.split sum.split prod.split)

lemma storeRequest_posted [simp]:
  "posted (storeRequest e rq d w) = posted w"
  by (simp add: storeRequest_def Let_def split: option.split sum.split prod.split)

lemma sendMessage_messageStorage [simp]:
  "messageStorage (snd (sendMessage e msgs w)) = messageStorage w"
  by (simp add: sendMessage_def Let_def split: sum.split)

lemma sendMessage_posted [simp]:
  "posted (snd (sendMessage e msgs w)) = posted w @ [\<lparr>messages = msgs, model = llm_model e\<rparr>]"
  by (simp add: sendMessage_def Let_def split: sum.split)

lemma sendMessage_result:
  "fst (sendMessage e msgs w) =
     (case post e \<lparr>messages = msgs, model = llm_model e\<rparr> of
        Inl msg \<Rightarrow> Inl (Error (''Failed to get LLM response: '' @ msg))
      | Inr d \<Rightarrow> Inr d)"
  by (simp add: sendMessage_def Let_def split: sum.split)

lemma getLLMResponse_world [simp]:
  "snd (getLLMResponse e msgs w) = snd (sendMessage e msgs w)"
  by (simp add: getLLMResponse_def split: prod.split sum.split)

lemma getLLMResponse_result:
  "fst (getLLMResponse e msgs w) =
     (case post e \<lparr>messages = msgs, model = llm_model e\<rparr> of
        Inl msg \<Rightarrow>
          Inl (Error (''LLM API call failed: '' @ ''Failed to get LLM response: '' @ msg))
      | Inr d \<Rightarrow>
          (case validateLLMResponse d of
             Inl err \<Rightarrow> Inl (Error (''LLM API call failed: '' @ message err))
           | Inr _ \<Rightarrow> Inr d))"
  using sendMessage_result [of e msgs w]
  by (cases "sendMessage e msgs w")
     (simp add: getLLMResponse_def split: sum.splits)

lemma validateLLMResponse_Inl:
  "validateLLMResponse d = Inl err \<Longrightarrow> err = Error ''Invalid response from LLM service''"
  by (auto simp: validateLLMResponse_def split: llm_response.splits option.splits if_splits)

text \<open>What a turn does once its content is accepted and the user turn is stored.\<close>

lemma processUserMessage_steps:
  assumes "c \<noteq> []"
    and "readMessages (messageStorage w) = Inr xs" and "writable (messageStorage w)"
    and "prepareConversationHistory e c r
           (w\<lparr>messageStorage := (messageStorage w)\<lparr>contents :=
                Json (xs @ [\<lparr>msg_id = maxId xs + 1, body = \<lparr>role = r, content = c\<rparr>,
                              timestamp = clock e\<rparr>])\<rparr>\<rparr>) = Inr ctx"
  shows "processUserMessage e c r w =
     (case getLLMResponse e ctx
             (w\<lparr>messageStorage := (messageStorage w)\<lparr>contents :=
                Json (xs @ [\<lparr>msg_id = maxId xs + 1, body = \<lparr>role = r, content = c\<rparr>,
                              timestamp = clock e\<rparr>])\<rparr>\<rparr>) of
        (Inl err, w2) \<Rightarrow> (Inl err, w2)
      | (Inr llmResponse, w2) \<Rightarrow>
          (case extractAssistantContent llmResponse of
             Inl err \<Rightarrow> (Inl err, w2)
           | Inr responseText \<Rightarrow> storeAssistantMessage e responseText w2))"
  using assms storeUserMessage_ok [OF assms(2,3), of e c r]
  by (simp add: processUserMessage_def validateUserMessage_def)

lemma prepare_total:
  assumes "readMessages (messageStorage w) = Inr ys"
  shows "\<exists>ctx. prepareConversationHistory e c r w = Inr ctx"
  using prepare_with_prompt [OF _ assms] prepare_without_prompt [OF _ assms]
  by (cases "prompts e ''system.prompt.xml''") auto

lemma processUserMessage_llm_fails:
  assumes "c \<noteq> []"
    and "readMessages (messageStorage w) = Inr xs" and "writable (messageStorage w)"
    and "prepareConversationHistory e c r
           (w\<lparr>messageStorage := (messageStorage w)\<lparr>contents :=
                Json (xs @ [\<lparr>msg_id = maxId xs + 1, body = \<lparr>role = r, content = c\<rparr>,
                              timestamp = clock e\<rparr>])\<rparr>\<rparr>) = Inr ctx"
    and "fst (getLLMResponse e ctx
           (w\<lparr>messageStorage := (messageStorage w)\<lparr>contents :=
                Json (xs @ [\<lparr>msg_id = maxId xs + 1, body = \<lparr>role = r, content = c\<rparr>,
                              timestamp = clock e\<rparr>])\<rparr>\<rparr>)) = Inl err"
  shows "fst (processUserMessage e c r w) = Inl err \<and>
         messageStorage (snd (processUserMessage e c r w)) =
           (messageStorage w)\<lparr>contents :=
                Json (xs @ [\<lparr>msg_id = maxId xs + 1, body = \<lparr>role = r, content = c\<rparr>,
                              timestamp = clock e\<rparr>])\<rparr>"
proof -
  let ?w1 = "w\<lparr>messageStorage := (messageStorage w)\<lparr>contents :=
                Json (xs @ [\<lparr>msg_id = maxId xs + 1, body = \<lparr>role = r, content = c\<rparr>,
                              timestamp = clock e\<rparr>])\<rparr>\<rparr>"
  obtain res w2 where g: "getLLMResponse e ctx ?w1 = (res, w2)"
    by (cases "getLLMResponse e ctx ?w1")
  with assms(5) have res: "res = Inl err" by simp
  have "messageStorage (snd (getLLMResponse e ctx ?w1)) = messageStorage ?w1"
    by simp
  with g have w2: "messageStorage w2 = messageStorage ?w1" by simp
  from processUserMessage_steps [OF assms(1-4)] g res w2 show ?thesis by simp
qed

lemma processUserMessage_llm_succeeds:
  assumes "c \<noteq> []"
    and "readMessages (messageStorage w) = Inr xs" and "writable (messageStorage w)"
    and "prepareConversationHistory e c r
           (w\<lparr>messageStorage := (messageStorage w)\<lparr>contents :=
                Json (xs @ [\<lparr>msg_id = maxId xs + 1, body = \<lparr>role = r, content = c\<rparr>,
                              timestamp = clock e\<rparr>])\<rparr>\<rparr>) = Inr ctx"
    and "post e \<lparr>messages = ctx, model = llm_model e\<rparr> = Inr (Data (Some (Choice (Some m) # cs)))"
  shows "fst (processUserMessage e c r w) =
           Inr \<lparr>reply_content = content m, reply_role = ''assistant'',
                reply_timestamp = clock e\<rparr> \<and>
         messageStorage (snd (processUserMessage e c r w)) =
           (messageStorage w)\<lparr>contents :=
                Json (xs @ [\<lparr>msg_id = maxId xs + 1, body = \<lparr>role = r, content = c\<rparr>,
                              timestamp = clock e\<rparr>,
                            \<lparr>msg_id = maxId xs + 2,
                              body = \<lparr>role = ''assistant'', content = content m\<rparr>,
                              timestamp = clock e\<rparr>])\<rparr>"
proof -
  let ?u = "\<lparr>msg_id = maxId xs + 1, body = \<lparr>role = r, content = c\<rparr>, timestamp = clock e\<rparr>"
  let ?w1 = "w\<lparr>messageStorage := (messageStorage w)\<lparr>contents := Json (xs @ [?u])\<rparr>\<rparr>"
  let ?d = "Data (Some (Choice (Some m) # cs))"
  obtain res w2 where g: "getLLMResponse e ctx ?w1 = (res, w2)"
    by (cases "getLLMResponse e ctx ?w1")
  have "fst (getLLMResponse e ctx ?w1) = Inr ?d"
    using assms(5) by (simp add: getLLMResponse_result validateLLMResponse_def)
  with g have res: "res = Inr ?d" by simp
  have "messageStorage (snd (getLLMResponse e ctx ?w1)) = messageStorage ?w1"
    by simp
  with g have w2: "messageStorage w2 = (messageStorage w)\<lparr>contents := Json (xs @ [?u])\<rparr>"
    by simp
  have rd: "readMessages (messageStorage w2) = Inr (xs @ [?u])"
    unfolding w2 by (rule readMessages_Json)
  have wr: "writable (messageStorage w2)"
    using assms(3) by (simp add: w2)
  have mx: "maxId (xs @ [?u]) = maxId xs + 1"
    by (rule maxId_snoc) simp
  have ex: "extractAssistantContent ?d = Inr (content m)"
    by (simp add: extractAssistantContent_def)
  from processUserMessage_steps [OF assms(1-4)] g res ex
    storeAssistantMessage_ok [OF rd wr, of e "content m"] mx w2
  show ?thesis by simp
qed

text \<open>The sample deployment, field by field.\<close>

lemma sample_clock: "clock sample_env = ''2025-01-01T00:00:00.000Z''"
  by (simp add: sample_env_def)

lemma sample_model: "llm_model sample_env = ''gpt-4o-mini''"
  by (simp add: sample_env_def)

lemma sample_post:
  "post sample_env rq =
     Inr (Data (Some (Choice (Some \<lparr>role = ''assistant'', content = ''hello''\<rparr>) # [])))"
  by (simp add: sample_env_def)

lemma sample_system_prompt: "prompts sample_env ''system.prompt.xml'' = Some ''Be brief.''"
  by (simp add: sample_env_def)

lemma sample_initial_message: "prompts sample_env ''initial-message.html'' = Some ''Welcome!''"
  by (simp add: sample_env_def)

lemma sample_messageStorage:
  "messageStorage sample_world = \<lparr>contents = Json [], writable = True\<rparr>"
  by (simp add: sample_world_def)

lemma sample_requestStorage:
  "requestStorage sample_world = Some \<lparr>contents = Json [], writable = True\<rparr>"
  by (simp add: sample_world_def)

lemma sample_posted: "posted sample_world = []"
  by (simp add: sample_world_def)

section \<open>The claims about a processed turn\<close>

text \<open>
  Claim C4. With empty content \<open>processUserMessage\<close> throws
  \<open>Message content is required\<close> and leaves the world as it was: neither storage is
  touched and nothing is posted.
\<close>

theorem processUserMessage_empty_content:
  "processUserMessage e [] userRole w = (Inl (Error ''Message content is required''), w)"
  by (simp add: processUserMessage_def validateUserMessage_def)

text \<open>
  Claim C1. With non-empty content, on a message storage that can be read and written,
  \<open>processUserMessage\<close> appends the user's turn, with the next id, and builds a context
  from the storage. If the endpoint answers with a completion whose first choice has a
  message, the assistant's turn is appended after the user's and the reply is returned:
  two appends. If the post is rejected, or the completion fails \<open>validateLLMResponse\<close>,
  the call throws \<open>LLM API call failed: ...\<close> and the storage holds the old records
  followed by the user's turn alone.
\<close>

theorem processUserMessage_turns:
  fixes e :: env and w :: world
  defines "u \<equiv> \<lambda>xs c r. \<lparr>msg_id = maxId xs + 1, body = \<lparr>role = r, content = c\<rparr>,
                             timestamp = clock e\<rparr>"
  assumes "c \<noteq> []"
    and "readMessages (messageStorage w) = Inr xs" and "writable (messageStorage w)"
  shows "\<exists>ctx. prepareConversationHistory e c r
                 (w\<lparr>messageStorage := (messageStorage w)\<lparr>contents := Json (xs @ [u xs c r])\<rparr>\<rparr>)
               = Inr ctx \<and>
           (\<forall>m cs. post e \<lparr>messages = ctx, model = llm_model e\<rparr>
                      = Inr (Data (Some (Choice (Some m) # cs))) \<longrightarrow>
              fst (processUserMessage e c r w) =
                Inr \<lparr>reply_content = content m, reply_role = ''assistant'',
                     reply_timestamp = clock e\<rparr> \<and>
              messageStorage (snd (processUserMessage e c r w)) =
                (messageStorage w)\<lparr>contents :=
                   Json (xs @ [u xs c r,
                               \<lparr>msg_id = maxId xs + 2,
                                 body = \<lparr>role = ''assistant'', content = content m\<rparr>,
                                 timestamp = clock e\<rparr>])\<rparr>) \<and>
           (\<forall>msg. post e \<lparr>messages = ctx, model = llm_model e\<rparr> = Inl msg \<longrightarrow>
              fst (processUserMessage e c r w) =
                Inl (Error (''LLM API call failed: Failed to get LLM response: '' @ msg)) \<and>
              messageStorage (snd (processUserMessage e c r w)) =
                (messageStorage w)\<lparr>contents := Json (xs @ [u xs c r])\<rparr>) \<and>
           (\<forall>d err. post e \<lparr>messages = ctx, model = llm_model e\<rparr> = Inr d \<and>
                     validateLLMResponse d = Inl err \<longrightarrow>
              fst (processUserMessage e c r w) =
                Inl (Error ''LLM API call failed: Invalid response from LLM service'') \<and>
              messageStorage (snd (processUserMessage e c r w)) =
                (messageStorage w)\<lparr>contents := Json (xs @ [u xs c r])\<rparr>)"
proof -
  let ?w1 = "w\<lparr>messageStorage := (messageStorage w)\<lparr>contents := Json (xs @ [u xs c r])\<rparr>\<rparr>"
  have "readMessages (messageStorage ?w1) = Inr (xs @ [u xs c r])"
    by (simp add: readMessages_Json)
  then obtain ctx where ctx: "prepareConversationHistory e c r ?w1 = Inr ctx"
    using prepare_total by blast
  note ctx' = ctx [unfolded u_def]
  have ok: "fst (processUserMessage e c r w) =
                Inr \<lparr>reply_content = content m, reply_role = ''assistant'',
                     reply_timestamp = clock e\<rparr> \<and>
              messageStorage (snd (processUserMessage e c r w)) =
                (messageStorage w)\<lparr>contents :=
                   Json (xs @ [u xs c r,
                               \<lparr>msg_id = maxId xs + 2,
                                 body = \<lparr>role = ''assistant'', content = content m\<rparr>,
                                 timestamp = clock e\<rparr>])\<rparr>"
    if "post e \<lparr>messages = ctx, model = llm_model e\<rparr> = Inr (Data (Some (Choice (Some m) # cs)))"
    for m cs
    using processUserMessage_llm_succeeds [OF assms(2-4) ctx' that] by (simp add: u_def)
  have transport: "fst (processUserMessage e c r w) =
                Inl (Error (''LLM API call failed: Failed to get LLM response: '' @ msg)) \<and>
              messageStorage (snd (processUserMessage e c r w)) =
                (messageStorage w)\<lparr>contents := Json (xs @ [u xs c r])\<rparr>"
    if "post e \<lparr>messages = ctx, model = llm_model e\<rparr> = Inl msg" for msg
  proof -
    have "fst (getLLMResponse e ctx ?w1) =
            Inl (Error (''LLM API call failed: Failed to get LLM response: '' @ msg))"
      using that by (simp add: getLLMResponse_result)
    from processUserMessage_llm_fails [OF assms(2-4) ctx' this [unfolded u_def]]
    show ?thesis by (simp add: u_def)
  qed
  have shape: "fst (processUserMessage e c r w) =
                Inl (Error ''LLM API call failed: Invalid response from LLM service'') \<and>
              messageStorage (snd (processUserMessage e c r w)) =
                (messageStorage w)\<lparr>contents := Json (xs @ [u xs c r])\<rparr>"
    if "post e \<lparr>messages = ctx, model = llm_model e\<rparr> = Inr d"
      and "validateLLMResponse d = Inl err" for d err
  proof -
    have "fst (getLLMResponse e ctx ?w1) =
            Inl (Error ''LLM API call failed: Invalid response from LLM service'')"
      using that validateLLMResponse_Inl [OF that(2)] by (simp add: getLLMResponse_result)
    from processUserMessage_llm_fails [OF assms(2-4) ctx' this [unfolded u_def]]
    show ?thesis by (simp add: u_def)
  qed
  from ctx ok transport shape show ?thesis by blast
qed

theorem processUserMessage_turns_witness:
  "''hi'' \<noteq> [] \<and>
   readMessages (messageStorage sample_world) = Inr [] \<and>
   writable (messageStorage sample_world) \<and>
   fst (processUserMessage sample_env ''hi'' ''user'' sample_world) =
     Inr \<lparr>reply_content = ''hello'', reply_role = ''assistant'',
          reply_timestamp = ''2025-01-01T00:00:00.000Z''\<rparr> \<and>
   messageStorage (snd (processUserMessage sample_env ''hi'' ''user'' sample_world)) =
     \<lparr>contents = Json [\<lparr>msg_id = 1, body = \<lparr>role = ''user'', content = ''hi''\<rparr>,
                          timestamp = ''2025-01-01T00:00:00.000Z''\<rparr>,
                        \<lparr>msg_id = 2, body = \<lparr>role = ''assistant'', content = ''hello''\<rparr>,
                          timestamp = ''2025-01-01T00:00:00.000Z''\<rparr>],
       writable = True\<rparr>"
proof -
  let ?res = "processUserMessage sample_env ''hi'' ''user'' sample_world"
  let ?u = "\<lparr>msg_id = maxId ([]::chat_msg stored list) + 1,
             body = \<lparr>role = ''user'', content = ''hi''\<rparr>, timestamp = clock sample_env\<rparr>"
  have h1: "''hi'' \<noteq> []" by simp
  have h2: "readMessages (messageStorage sample_world) = Inr []"
    by (simp add: sample_world_def readMessages_def)
  have h3: "writable (messageStorage sample_world)"
    by (simp add: sample_world_def)
  have p: "post sample_env rq =
             Inr (Data (Some (Choice (Some \<lparr>role = ''assistant'', content = ''hello''\<rparr>) # [])))"
    for rq by (simp add: sample_env_def)
  from processUserMessage_turns [OF h1 h2 h3, of sample_env "''user''"]
  obtain ctx where
    "\<forall>m cs. post sample_env \<lparr>messages = ctx, model = llm_model sample_env\<rparr>
               = Inr (Data (Some (Choice (Some m) # cs))) \<longrightarrow>
       fst ?res = Inr \<lparr>reply_content = content m, reply_role = ''assistant'',
                       reply_timestamp = clock sample_env\<rparr> \<and>
       messageStorage (snd ?res) =
         (messageStorage sample_world)\<lparr>contents :=
            Json ([] @ [?u, \<lparr>msg_id = maxId ([]::chat_msg stored list) + 2,
                              body = \<lparr>role = ''assistant'', content = content m\<rparr>,
                              timestamp = clock sample_env\<rparr>])\<rparr>"
    by (elim exE conjE) (rule that)
  from this [rule_format, OF p]
  have "fst ?res = Inr \<lparr>reply_content = ''hello'', reply_role = ''assistant'',
                       reply_timestamp = clock sample_env\<rparr> \<and>
       messageStorage (snd ?res) =
         (messageStorage sample_world)\<lparr>contents :=
            Json [?u, \<lparr>msg_id = maxId ([]::chat_msg stored list) + 2,
                        body = \<lparr>role = ''assistant'', content = ''hello''\<rparr>,
                        timestamp = clock sample_env\<rparr>]\<rparr>"
    by simp
  moreover have "clock sample_env = ''2025-01-01T00:00:00.000Z''"
    by (simp add: sample_env_def)
  moreover have "messageStorage sample_world = \<lparr>contents = Json [], writable = True\<rparr>"
    by (simp add: sample_world_def)
  ultimately show ?thesis using h1 h2 h3
    by (simp add: maxId_Nil)
qed

text \<open>
  Claim C8. When the endpoint answers the posted context with \<open>choices: []\<close>,
  \<open>processUserMessage\<close> throws an error whose message is \<open>LLM API call failed: Invalid
  response from LLM service\<close>, and the message storage holds the old records followed by
  the user's turn of this call and no assistant turn.
\<close>

theorem processUserMessage_empty_choices:
  assumes "c \<noteq> []"
    and "readMessages (messageStorage w) = Inr xs" and "writable (messageStorage w)"
    and "prepareConversationHistory e c r
           (w\<lparr>messageStorage := (messageStorage w)\<lparr>contents :=
                Json (xs @ [\<lparr>msg_id = maxId xs + 1, body = \<lparr>role = r, content = c\<rparr>,
                              timestamp = clock e\<rparr>])\<rparr>\<rparr>) = Inr ctx"
    and "post e \<lparr>messages = ctx, model = llm_model e\<rparr> = Inr (Data (Some []))"
  shows "fst (processUserMessage e c r w) =
           Inl (Error ''LLM API call failed: Invalid response from LLM service'') \<and>
         messageStorage (snd (processUserMessage e c r w)) =
           (messageStorage w)\<lparr>contents :=
              Json (xs @ [\<lparr>msg_id = maxId xs + 1, body = \<lparr>role = r, content = c\<rparr>,
                            timestamp = clock e\<rparr>])\<rparr>"
proof -
  have "fst (getLLMResponse e ctx
           (w\<lparr>messageStorage := (messageStorage w)\<lparr>contents :=
                Json (xs @ [\<lparr>msg_id = maxId xs + 1, body = \<lparr>role = r, content = c\<rparr>,
                              timestamp = clock e\<rparr>])\<rparr>\<rparr>)) =
          Inl (Error ''LLM API call failed: Invalid response from LLM service'')"
    using assms(5) by (simp add: getLLMResponse_result validateLLMResponse_def)
  from processUserMessage_llm_fails [OF assms(1-4) this] show ?thesis .
qed

theorem processUserMessage_empty_choices_witness:
  "''hi'' \<noteq> [] \<and>
   readMessages (messageStorage sample_world) = Inr [] \<and>
   writable (messageStorage sample_world) \<and>
   fst (processUserMessage (sample_env\<lparr>post := \<lambda>rq. Inr (Data (Some []))\<rparr>)
          ''hi'' ''user'' sample_world) =
     Inl (Error ''LLM API call failed: Invalid response from LLM service'') \<and>
   messageStorage (snd (processUserMessage (sample_env\<lparr>post := \<lambda>rq. Inr (Data (Some []))\<rparr>)
          ''hi'' ''user'' sample_world)) =
     \<lparr>contents = Json [\<lparr>msg_id = 1, body = \<lparr>role = ''user'', content = ''hi''\<rparr>,
                          timestamp = ''2025-01-01T00:00:00.000Z''\<rparr>],
       writable = True\<rparr>"
proof -
  let ?e = "sample_env\<lparr>post := \<lambda>rq. Inr (Data (Some []))\<rparr>"
  have h1: "''hi'' \<noteq> []" by simp
  have h2: "readMessages (messageStorage sample_world) = Inr []"
    by (simp add: sample_world_def readMessages_def)
  have h3: "writable (messageStorage sample_world)"
    by (simp add: sample_world_def)
  obtain ctx where h4: "prepareConversationHistory ?e ''hi'' ''user''
           (sample_world\<lparr>messageStorage := (messageStorage sample_world)\<lparr>contents :=
                Json ([] @ [\<lparr>msg_id = maxId ([]::chat_msg stored list) + 1, body = \<lparr>role = ''user'', content = ''hi''\<rparr>,
                              timestamp = clock ?e\<rparr>])\<rparr>\<rparr>) = Inr ctx"
    using prepare_total [of _ _ "?e" "''hi''" "''user''"] by (fastforce simp: readMessages_Json)
  have h5: "post ?e \<lparr>messages = ctx, model = llm_model ?e\<rparr> = Inr (Data (Some []))"
    by simp
  from processUserMessage_empty_choices [OF h1 h2 h3 h4 h5] h1 h2 h3
  show ?thesis by (simp add: maxId_Nil sample_env_def sample_world_def)
qed

section \<open>The claims about the reset and about the context\<close>

lemma clearAllMessages_cleared:
  assumes "writable (messageStorage w)"
    and "case requestStorage w of None \<Rightarrow> True | Some st \<Rightarrow> writable st"
  shows "clearAllMessages e w =
     (let w1 = w\<lparr>messageStorage := (messageStorage w)\<lparr>contents := Json []\<rparr>,
                 requestStorage := map_option (\<lambda>st. st\<lparr>contents := Json []\<rparr>) (requestStorage w)\<rparr>;
          w2 = (case loadPrompt e ''initial-message.html'' of
                  Inl err \<Rightarrow> w1
                | Inr initialMessage \<Rightarrow>
                    (case addMessage (clock e)
                            \<lparr>payload = \<lparr>role = ''assistant'', content = initialMessage\<rparr>,
                             timestamp_opt = Some (clock e)\<rparr> (messageStorage w1) of
                       (_, st') \<Rightarrow> w1\<lparr>messageStorage := st'\<rparr>))
      in (getAllMessages None w2, w2))"
  using assms
  by (cases "requestStorage w")
     (simp_all add: clearAllMessages_def clearMessages_ok Let_def)

lemma storeAssistantMessage_posted [simp]:
  "posted (snd (storeAssistantMessage e c w)) = posted w"
  by (simp add: storeAssistantMessage_def split: prod.split sum.split)

lemma processUserMessage_posted:
  assumes "c \<noteq> []"
    and "readMessages (messageStorage w) = Inr xs" and "writable (messageStorage w)"
    and "prepareConversationHistory e c r
           (w\<lparr>messageStorage := (messageStorage w)\<lparr>contents :=
                Json (xs @ [\<lparr>msg_id = maxId xs + 1, body = \<lparr>role = r, content = c\<rparr>,
                              timestamp = clock e\<rparr>])\<rparr>\<rparr>) = Inr ctx"
  shows "posted (snd (processUserMessage e c r w)) =
           posted w @ [\<lparr>messages = ctx, model = llm_model e\<rparr>]"
proof -
  let ?w1 = "w\<lparr>messageStorage := (messageStorage w)\<lparr>contents :=
                Json (xs @ [\<lparr>msg_id = maxId xs + 1, body = \<lparr>role = r, content = c\<rparr>,
                              timestamp = clock e\<rparr>])\<rparr>\<rparr>"
  obtain res w2 where g: "getLLMResponse e ctx ?w1 = (res, w2)"
    by (cases "getLLMResponse e ctx ?w1")
  have "posted (snd (getLLMResponse e ctx ?w1)) =
          posted ?w1 @ [\<lparr>messages = ctx, model = llm_model e\<rparr>]"
    by simp
  with g have "posted w2 = posted w @ [\<lparr>messages = ctx, model = llm_model e\<rparr>]"
    by simp
  with processUserMessage_steps [OF assms] g show ?thesis
    by (simp split: sum.split)
qed

lemma processUserMessage_appended:
  assumes "c \<noteq> []"
    and "readMessages (messageStorage w) = Inr xs" and "writable (messageStorage w)"
  shows "messageStorage (snd (processUserMessage e c r w)) =
           (messageStorage w)\<lparr>contents :=
              Json (xs @ [\<lparr>msg_id = maxId xs + 1, body = \<lparr>role = r, content = c\<rparr>,
                            timestamp = clock e\<rparr>])\<rparr> \<or>
         (\<exists>reply. messageStorage (snd (processUserMessage e c r w)) =
           (messageStorage w)\<lparr>contents :=
              Json (xs @ [\<lparr>msg_id = maxId xs + 1, body = \<lparr>role = r, content = c\<rparr>,
                            timestamp = clock e\<rparr>,
                          \<lparr>msg_id = maxId xs + 2,
                            body = \<lparr>role = ''assistant'', content = reply\<rparr>,
                            timestamp = clock e\<rparr>])\<rparr>)"
proof -
  let ?u = "\<lparr>msg_id = maxId xs + 1, body = \<lparr>role = r, content = c\<rparr>, timestamp = clock e\<rparr>"
  let ?w1 = "w\<lparr>messageStorage := (messageStorage w)\<lparr>contents := Json (xs @ [?u])\<rparr>\<rparr>"
  have "readMessages (messageStorage ?w1) = Inr (xs @ [?u])"
    by (simp add: readMessages_Json)
  then obtain ctx where ctx: "prepareConversationHistory e c r ?w1 = Inr ctx"
    using prepare_total by blast
  obtain res w2 where g: "getLLMResponse e ctx ?w1 = (res, w2)"
    by (cases "getLLMResponse e ctx ?w1")
  have "messageStorage (snd (getLLMResponse e ctx ?w1)) = messageStorage ?w1"
    by simp
  with g have w2: "messageStorage w2 = (messageStorage w)\<lparr>contents := Json (xs @ [?u])\<rparr>"
    by simp
  have rd: "readMessages (messageStorage w2) = Inr (xs @ [?u])"
    unfolding w2 by (rule readMessages_Json)
  have wr: "writable (messageStorage w2)"
    using assms(3) by (simp add: w2)
  have mx: "maxId (xs @ [?u]) = maxId xs + 1"
    by (rule maxId_snoc) simp
  show ?thesis
  proof (cases res)
    case (Inl err)
    with processUserMessage_steps [OF assms ctx] g w2 show ?thesis by simp
  next
    case (Inr d)
    show ?thesis
    proof (cases "extractAssistantContent d")
      case (Inl err)
      with processUserMessage_steps [OF assms ctx] g w2 Inr show ?thesis by simp
    next
      case (Inr reply) 
      with processUserMessage_steps [OF assms ctx] g w2 \<open>res = Inr d\<close>
        storeAssistantMessage_ok [OF rd wr, of e reply] mx
      have "messageStorage (snd (processUserMessage e c r w)) =
              (messageStorage w)\<lparr>contents :=
                 Json (xs @ [?u, \<lparr>msg_id = maxId xs + 2,
                                   body = \<lparr>role = ''assistant'', content = reply\<rparr>,
                                   timestamp = clock e\<rparr>])\<rparr>"
        by simp
      then show ?thesis by blast
    qed
  qed
qed

text \<open>
  Claim C5. Whatever the two files held before (records, text that does not parse, or
  nothing readable), as long as they can be written, \<open>clearAllMessages\<close> leaves the
  message storage with exactly one record, the assistant turn with id 1 that carries
  the text of \<open>initial-message.html\<close>, leaves the request storage, when there is one,
  empty, and returns that one-record list. When the prompt file cannot be loaded, both
  storages are left empty and the empty list is returned; no error is thrown.
\<close>

theorem clearAllMessages_reset:
  assumes "writable (messageStorage w)"
    and "case requestStorage w of None \<Rightarrow> True | Some st \<Rightarrow> writable st"
  shows "(\<forall>greeting. prompts e ''initial-message.html'' = Some greeting \<longrightarrow>
            clearAllMessages e w =
              (Inr [\<lparr>msg_id = 1, body = \<lparr>role = ''assistant'', content = greeting\<rparr>,
                     timestamp = clock e\<rparr>],
               w\<lparr>messageStorage := (messageStorage w)\<lparr>contents :=
                      Json [\<lparr>msg_id = 1, body = \<lparr>role = ''assistant'', content = greeting\<rparr>,
                             timestamp = clock e\<rparr>]\<rparr>,
                  requestStorage :=
                    map_option (\<lambda>st. st\<lparr>contents := Json []\<rparr>) (requestStorage w)\<rparr>)) \<and>
         (prompts e ''initial-message.html'' = None \<longrightarrow>
            clearAllMessages e w =
              (Inr [],
               w\<lparr>messageStorage := (messageStorage w)\<lparr>contents := Json []\<rparr>,
                  requestStorage :=
                    map_option (\<lambda>st. st\<lparr>contents := Json []\<rparr>) (requestStorage w)\<rparr>))"
proof -
  let ?ms = "(messageStorage w)\<lparr>contents := Json []\<rparr>"
  have rd: "readMessages ?ms = Inr []" by (rule readMessages_Json)
  have wr: "writable ?ms" using assms(1) by simp
  have add: "addMessage (clock e)
               \<lparr>payload = \<lparr>role = ''assistant'', content = greeting\<rparr>,
                timestamp_opt = Some (clock e)\<rparr> ?ms =
             (Inr \<lparr>msg_id = 1, body = \<lparr>role = ''assistant'', content = greeting\<rparr>,
                   timestamp = clock e\<rparr>,
              (messageStorage w)\<lparr>contents :=
                 Json [\<lparr>msg_id = 1, body = \<lparr>role = ''assistant'', content = greeting\<rparr>,
                        timestamp = clock e\<rparr>]\<rparr>)" for greeting
    using addMessage_ok [OF rd wr, of "clock e"
        "\<lparr>payload = \<lparr>role = ''assistant'', content = greeting\<rparr>,
          timestamp_opt = Some (clock e)\<rparr>"]
    by (simp add: maxId_Nil)
  show ?thesis
    using add
    by (simp add: clearAllMessages_cleared [OF assms] loadPrompt_def Let_def
        getAllMessages_def getMessages_all readMessages_Json)
qed

theorem clearAllMessages_reset_witness:
  "writable (messageStorage (sample_world\<lparr>messageStorage := \<lparr>contents = Garbage, writable = True\<rparr>\<rparr>)) \<and>
   (case requestStorage (sample_world\<lparr>messageStorage := \<lparr>contents = Garbage, writable = True\<rparr>\<rparr>)
    of None \<Rightarrow> True | Some st \<Rightarrow> writable st) \<and>
   prompts sample_env ''initial-message.html'' = Some ''Welcome!'' \<and>
   clearAllMessages sample_env
     (sample_world\<lparr>messageStorage := \<lparr>contents = Garbage, writable = True\<rparr>\<rparr>) =
     (Inr [\<lparr>msg_id = 1, body = \<lparr>role = ''assistant'', content = ''Welcome!''\<rparr>,
            timestamp = ''2025-01-01T00:00:00.000Z''\<rparr>],
      \<lparr>messageStorage =
         \<lparr>contents = Json [\<lparr>msg_id = 1, body = \<lparr>role = ''assistant'', content = ''Welcome!''\<rparr>,
                              timestamp = ''2025-01-01T00:00:00.000Z''\<rparr>],
           writable = True\<rparr>,
       requestStorage = Some \<lparr>contents = Json [], writable = True\<rparr>,
       posted = []\<rparr>)"
proof -
  let ?w = "sample_world\<lparr>messageStorage := \<lparr>contents = Garbage, writable = True\<rparr>\<rparr>"
  have h1: "writable (messageStorage ?w)" by simp
  have h2: "case requestStorage ?w of None \<Rightarrow> True | Some st \<Rightarrow> writable st"
    by (simp add: sample_world_def)
  have h3: "prompts sample_env ''initial-message.html'' = Some ''Welcome!''"
    by (simp add: sample_env_def)
  from clearAllMessages_reset [OF h1 h2, of sample_env] h1 h2 h3
  show ?thesis by (simp add: sample_env_def sample_world_def)
qed

text \<open>
  Claim C6. When \<open>system.prompt.xml\<close> loads, the request that \<open>processUserMessage\<close>
  posts starts with the system message, followed by the stored turns and the new one.
  The message storage only gains the user's turn, or the user's turn and the
  assistant's: the system prompt is never written to it.
\<close>

theorem system_prompt_first_not_stored:
  assumes "c \<noteq> []"
    and "readMessages (messageStorage w) = Inr xs" and "writable (messageStorage w)"
    and "prompts e ''system.prompt.xml'' = Some p"
  shows "posted (snd (processUserMessage e c r w)) =
           posted w @ [\<lparr>messages = \<lparr>role = ''system'', content = p\<rparr> #
                                     (map body xs @ [\<lparr>role = r, content = c\<rparr>]),
                         model = llm_model e\<rparr>] \<and>
         (\<exists>new. readMessages (messageStorage (snd (processUserMessage e c r w))) =
                   Inr (xs @ new) \<and>
                 (map body new = [\<lparr>role = r, content = c\<rparr>] \<or>
                  (\<exists>reply. map body new = [\<lparr>role = r, content = c\<rparr>,
                                            \<lparr>role = ''assistant'', content = reply\<rparr>])))"
proof -
  let ?u = "\<lparr>msg_id = maxId xs + 1, body = \<lparr>role = r, content = c\<rparr>, timestamp = clock e\<rparr>"
  let ?w1 = "w\<lparr>messageStorage := (messageStorage w)\<lparr>contents := Json (xs @ [?u])\<rparr>\<rparr>"
  have "readMessages (messageStorage ?w1) = Inr (xs @ [?u])"
    by (simp add: readMessages_Json)
  from prepare_with_prompt [OF assms(4) this, of c r]
  have ctx: "prepareConversationHistory e c r ?w1 =
               Inr (\<lparr>role = ''system'', content = p\<rparr> #
                    (map body xs @ [\<lparr>role = r, content = c\<rparr>]))"
    by simp
  from processUserMessage_appended [OF assms(1-3), of e r]
  have "\<exists>new. readMessages (messageStorage (snd (processUserMessage e c r w))) =
                   Inr (xs @ new) \<and>
                 (map body new = [\<lparr>role = r, content = c\<rparr>] \<or>
                  (\<exists>reply. map body new = [\<lparr>role = r, content = c\<rparr>,
                                            \<lparr>role = ''assistant'', content = reply\<rparr>]))"
  proof (elim disjE exE)
    assume a: "messageStorage (snd (processUserMessage e c r w)) =
                 (messageStorage w)\<lparr>contents := Json (xs @ [?u])\<rparr>"
    show ?thesis
      by (rule exI [of _ "[?u]"]) (simp add: a readMessages_Json)
  next
    fix reply
    let ?a = "\<lparr>msg_id = maxId xs + 2, body = \<lparr>role = ''assistant'', content = reply\<rparr>,
               timestamp = clock e\<rparr>"
    assume a: "messageStorage (snd (processUserMessage e c r w)) =
                 (messageStorage w)\<lparr>contents := Json (xs @ [?u, ?a])\<rparr>"
    show ?thesis
      by (rule exI [of _ "[?u, ?a]"]) (simp add: a readMessages_Json)
  qed
  with processUserMessage_posted [OF assms(1-3) ctx] show ?thesis by simp
qed

theorem system_prompt_first_not_stored_witness:
  "''hi'' \<noteq> [] \<and>
   readMessages (messageStorage sample_world) = Inr [] \<and>
   writable (messageStorage sample_world) \<and>
   prompts sample_env ''system.prompt.xml'' = Some ''Be brief.'' \<and>
   posted (snd (processUserMessage sample_env ''hi'' ''user'' sample_world)) =
     [\<lparr>messages = [\<lparr>role = ''system'', content = ''Be brief.''\<rparr>,
                     \<lparr>role = ''user'', content = ''hi''\<rparr>],
       model = ''gpt-4o-mini''\<rparr>]"
proof -
  have h1: "''hi'' \<noteq> []" by simp
  have h2: "readMessages (messageStorage sample_world) = Inr []"
    by (simp add: sample_world_def readMessages_def)
  have h3: "writable (messageStorage sample_world)"
    by (simp add: sample_world_def)
  have h4: "prompts sample_env ''system.prompt.xml'' = Some ''Be brief.''"
    by (simp add: sample_env_def)
  from system_prompt_first_not_stored [OF h1 h2 h3 h4, of "''user''"]
  have "posted (snd (processUserMessage sample_env ''hi'' ''user'' sample_world)) =
          posted sample_world @
          [\<lparr>messages = \<lparr>role = ''system'', content = ''Be brief.''\<rparr> #
                          (map body ([]::chat_msg stored list) @ [\<lparr>role = ''user'', content = ''hi''\<rparr>]),
            model = llm_model sample_env\<rparr>]"
    by (rule conjunct1)
  with h1 h2 h3 h4 show ?thesis
    by (simp add: sample_env_def sample_world_def)
qed

text \<open>
  Claim C7. The context is built after the new turn has been stored. When the system
  prompt loads, the context is the system message followed by the turns read from the
  storage, so the new turn is there once, as the last stored turn. When the prompt does
  not load, the \<open>catch\<close> block reads the same storage and appends the new turn again, so
  the context ends with the new turn twice.
\<close>

theorem new_turn_multiplicity:
  assumes "c \<noteq> []"
    and "readMessages (messageStorage w) = Inr xs" and "writable (messageStorage w)"
  shows "(\<forall>p. prompts e ''system.prompt.xml'' = Some p \<longrightarrow>
            (\<exists>ctx. posted (snd (processUserMessage e c r w)) =
                      posted w @ [\<lparr>messages = ctx, model = llm_model e\<rparr>] \<and>
                    ctx = \<lparr>role = ''system'', content = p\<rparr> #
                            (map body xs @ [\<lparr>role = r, content = c\<rparr>]) \<and>
                    count_list ctx \<lparr>role = r, content = c\<rparr> =
                      count_list (\<lparr>role = ''system'', content = p\<rparr> # map body xs)
                        \<lparr>role = r, content = c\<rparr> + 1)) \<and>
         (prompts e ''system.prompt.xml'' = None \<longrightarrow>
            (\<exists>ctx. posted (snd (processUserMessage e c r w)) =
                      posted w @ [\<lparr>messages = ctx, model = llm_model e\<rparr>] \<and>
                    ctx = map body xs @ [\<lparr>role = r, content = c\<rparr>, \<lparr>role = r, content = c\<rparr>] \<and>
                    count_list ctx \<lparr>role = r, content = c\<rparr> =
                      count_list (map body xs) \<lparr>role = r, content = c\<rparr> + 2))"
proof -
  let ?u = "\<lparr>msg_id = maxId xs + 1, body = \<lparr>role = r, content = c\<rparr>, timestamp = clock e\<rparr>"
  let ?w1 = "w\<lparr>messageStorage := (messageStorage w)\<lparr>contents := Json (xs @ [?u])\<rparr>\<rparr>"
  have rd: "readMessages (messageStorage ?w1) = Inr (xs @ [?u])"
    by (simp add: readMessages_Json)
  have with_prompt: "posted (snd (processUserMessage e c r w)) =
          posted w @ [\<lparr>messages = \<lparr>role = ''system'', content = p\<rparr> #
                                    (map body xs @ [\<lparr>role = r, content = c\<rparr>]),
                        model = llm_model e\<rparr>]"
    if "prompts e ''system.prompt.xml'' = Some p" for p
  proof -
    from prepare_with_prompt [OF that rd, of c r]
    have "prepareConversationHistory e c r ?w1 =
               Inr (\<lparr>role = ''system'', content = p\<rparr> #
                    (map body xs @ [\<lparr>role = r, content = c\<rparr>]))"
      by simp
    from processUserMessage_posted [OF assms this] show ?thesis .
  qed
  have without_prompt: "posted (snd (processUserMessage e c r w)) =
          posted w @ [\<lparr>messages = map body xs @ [\<lparr>role = r, content = c\<rparr>,
                                                   \<lparr>role = r, content = c\<rparr>],
                        model = llm_model e\<rparr>]"
    if "prompts e ''system.prompt.xml'' = None"
  proof -
    from prepare_without_prompt [OF that rd, of c r]
    have "prepareConversationHistory e c r ?w1 =
               Inr (map body xs @ [\<lparr>role = r, content = c\<rparr>, \<lparr>role = r, content = c\<rparr>])"
      by simp
    from processUserMessage_posted [OF assms this] show ?thesis .
  qed
  from with_prompt without_prompt show ?thesis by simp
qed

theorem new_turn_multiplicity_witness:
  "''hi'' \<noteq> [] \<and>
   readMessages (messageStorage sample_world) = Inr [] \<and>
   writable (messageStorage sample_world) \<and>
   prompts (sample_env\<lparr>prompts := Map.empty\<rparr>) ''system.prompt.xml'' = None \<and>
   posted (snd (processUserMessage (sample_env\<lparr>prompts := Map.empty\<rparr>)
                  ''hi'' ''user'' sample_world)) =
     [\<lparr>messages = [\<lparr>role = ''user'', content = ''hi''\<rparr>,
                     \<lparr>role = ''user'', content = ''hi''\<rparr>],
       model = ''gpt-4o-mini''\<rparr>]"
proof -
  let ?e = "sample_env\<lparr>prompts := Map.empty\<rparr>"
  have h1: "''hi'' \<noteq> []" by simp
  have h2: "readMessages (messageStorage sample_world) = Inr []"
    by (simp add: sample_world_def readMessages_def)
  have h3: "writable (messageStorage sample_world)"
    by (simp add: sample_world_def)
  have h4: "prompts ?e ''system.prompt.xml'' = None"
    by simp
  from new_turn_multiplicity [OF h1 h2 h3, of ?e "''user''"] h4
  have "\<exists>ctx. posted (snd (processUserMessage ?e ''hi'' ''user'' sample_world)) =
                posted sample_world @ [\<lparr>messages = ctx, model = llm_model ?e\<rparr>] \<and>
              ctx = map body ([]::chat_msg stored list) @ [\<lparr>role = ''user'', content = ''hi''\<rparr>,
                                   \<lparr>role = ''user'', content = ''hi''\<rparr>]"
    by blast
  with h1 h2 h3 h4 show ?thesis
    by (simp add: sample_env_def sample_world_def)
qed

section \<open>The claims about storage failures\<close>

lemma getMessages_Unreadable:
  "contents st = Unreadable \<Longrightarrow>
   getMessages q r st = Inl (Error ''ENOENT: no such file or directory'')"
  by (simp add: getMessages_def readMessages_def)

lemma addMessage_Unreadable:
  "contents st = Unreadable \<Longrightarrow>
   addMessage now m st = (Inl (Error ''ENOENT: no such file or directory''), st)"
  by (simp add: addMessage_def readMessages_def)

lemma readMessages_Garbage: "contents st = Garbage \<Longrightarrow> readMessages st = Inr []"
  by (simp add: readMessages_def)

lemma getMessages_Garbage: "contents st = Garbage \<Longrightarrow> getMessages q r st = Inr []"
  by (simp add: getMessages_def readMessages_def slice_from_def split: option.split)

lemma processUserMessage_Unreadable:
  assumes "contents (messageStorage w) = Unreadable" and "c \<noteq> []"
  shows "processUserMessage e c r w = (Inl (Error ''ENOENT: no such file or directory''), w)"
  using assms addMessage_Unreadable [OF assms(1)]
  by (simp add: processUserMessage_def validateUserMessage_def storeUserMessage_def)

lemma sendMessage_best_effort:
  "post e \<lparr>messages = msgs, model = llm_model e\<rparr> = Inr d \<Longrightarrow>
   fst (sendMessage e msgs w) = Inr d"
  by (simp add: sendMessage_result)

lemma clearAllMessages_reads_back:
  assumes "writable (messageStorage w)"
    and "case requestStorage w of None \<Rightarrow> True | Some st \<Rightarrow> writable st"
  shows "fst (clearAllMessages e w) = getAllMessages None (snd (clearAllMessages e w))"
  by (simp add: clearAllMessages_cleared [OF assms] Let_def)

text \<open>
  Claim C9, as the code has it. When \<open>fs.readFile\<close> rejects, \<open>getMessages\<close> and
  \<open>addMessage\<close> reject with that error and leave the file alone, and so do
  \<open>getAllMessages\<close> and \<open>processUserMessage\<close> on top of them. When the text of the file
  does not parse, \<open>readMessages\<close> catches the error and carries on with no records:
  \<open>getMessages\<close> returns the empty list, and \<open>addMessage\<close> gives its record the id 1
  and replaces the content of the file by that one record. The write of the request
  log is best-effort: \<open>sendMessage\<close> returns what the endpoint answered, whatever the
  state of the request storage. A reset whose two clears succeed returns what it reads
  back from the message storage, whatever happened to the welcome message.
\<close>

theorem read_failure_surfaced_parse_failure_empty:
  "(contents st = Unreadable \<longrightarrow>
      getMessages q r st = Inl (Error ''ENOENT: no such file or directory'') \<and>
      addMessage now m st = (Inl (Error ''ENOENT: no such file or directory''), st)) \<and>
   (contents st = Garbage \<longrightarrow>
      getMessages q r st = Inr [] \<and>
      (writable st \<longrightarrow>
         (\<exists>new. addMessage now m st = (Inr new, st\<lparr>contents := Json [new]\<rparr>) \<and>
                msg_id new = 1 \<and> body new = payload m))) \<and>
   (contents (messageStorage w) = Unreadable \<longrightarrow>
      getAllMessages q w = Inl (Error ''ENOENT: no such file or directory'') \<and>
      (c \<noteq> [] \<longrightarrow>
         processUserMessage e c userRole w =
           (Inl (Error ''ENOENT: no such file or directory''), w))) \<and>
   (\<forall>d. post e \<lparr>messages = msgs, model = llm_model e\<rparr> = Inr d \<longrightarrow>
      fst (sendMessage e msgs w) = Inr d) \<and>
   (writable (messageStorage w) \<and>
    (case requestStorage w of None \<Rightarrow> True | Some rs \<Rightarrow> writable rs) \<longrightarrow>
      fst (clearAllMessages e w) = getAllMessages None (snd (clearAllMessages e w)))"
proof -
  have garbage_add: "\<exists>new. addMessage now m st = (Inr new, st\<lparr>contents := Json [new]\<rparr>) \<and>
                msg_id new = 1 \<and> body new = payload m"
    if "contents st = Garbage" "writable st"
    using addMessage_ok [OF readMessages_Garbage [OF that(1)] that(2), of now m]
    by (simp add: maxId_Nil)
  show ?thesis
    using garbage_add
    by (simp add: getMessages_Unreadable addMessage_Unreadable getMessages_Garbage
        getAllMessages_def processUserMessage_Unreadable sendMessage_best_effort
        clearAllMessages_reads_back)
qed

theorem read_failure_surfaced_parse_failure_empty_witness:
  "contents (\<lparr>contents = Unreadable, writable = True\<rparr> :: chat_msg storage) = Unreadable \<and>
   getMessages None False (\<lparr>contents = Unreadable, writable = True\<rparr> :: chat_msg storage) =
     Inl (Error ''ENOENT: no such file or directory'') \<and>
   contents (\<lparr>contents = Garbage, writable = True\<rparr> :: chat_msg storage) = Garbage \<and>
   getMessages None False (\<lparr>contents = Garbage, writable = True\<rparr> :: chat_msg storage) = Inr [] \<and>
   post sample_env \<lparr>messages = [], model = llm_model sample_env\<rparr> =
     Inr (Data (Some [Choice (Some \<lparr>role = ''assistant'', content = ''hello''\<rparr>)])) \<and>
   fst (sendMessage sample_env []
          (sample_world\<lparr>requestStorage := Some \<lparr>contents = Unreadable, writable = False\<rparr>\<rparr>)) =
     Inr (Data (Some [Choice (Some \<lparr>role = ''assistant'', content = ''hello''\<rparr>)]))"
proof -
  let ?U = "\<lparr>contents = Unreadable, writable = True\<rparr> :: chat_msg storage"
  let ?G = "\<lparr>contents = Garbage, writable = True\<rparr> :: chat_msg storage"
  let ?w = "sample_world\<lparr>requestStorage := Some \<lparr>contents = Unreadable, writable = False\<rparr>\<rparr>"
  let ?d = "Data (Some [Choice (Some \<lparr>role = ''assistant'', content = ''hello''\<rparr>)])"
  have u: "contents ?U = Unreadable" by simp
  have g: "contents ?G = Garbage" by simp
  have p: "post sample_env \<lparr>messages = [], model = llm_model sample_env\<rparr> = Inr ?d"
    by (rule sample_post)
  note at_U = read_failure_surfaced_parse_failure_empty
    [where st = ?U and q = None and r = False and w = ?w and e = sample_env and msgs = "[]"]
  note at_G = read_failure_surfaced_parse_failure_empty
    [where st = ?G and q = None and r = False and w = ?w and e = sample_env and msgs = "[]"]
  from at_U have "contents ?U = Unreadable \<longrightarrow>
      getMessages None False ?U = Inl (Error ''ENOENT: no such file or directory'') \<and>
      addMessage now m ?U = (Inl (Error ''ENOENT: no such file or directory''), ?U)"
    for now m by (rule conjunct1)
  with u have a: "getMessages None False ?U = Inl (Error ''ENOENT: no such file or directory'')"
    by blast
  from at_G have "contents ?G = Garbage \<longrightarrow>
      getMessages None False ?G = Inr [] \<and>
      (writable ?G \<longrightarrow>
         (\<exists>new. addMessage now m ?G = (Inr new, ?G\<lparr>contents := Json [new]\<rparr>) \<and>
                msg_id new = 1 \<and> body new = payload m))"
    for now m by (rule conjunct2 [THEN conjunct1])
  with g have b: "getMessages None False ?G = Inr []"
    by blast
  from at_U have "\<forall>d. post sample_env \<lparr>messages = [], model = llm_model sample_env\<rparr> = Inr d \<longrightarrow>
      fst (sendMessage sample_env [] ?w) = Inr d"
    by (rule conjunct2 [THEN conjunct2, THEN conjunct2, THEN conjunct1])
  with p have c: "fst (sendMessage sample_env [] ?w) = Inr ?d"
    by blast
  from u a g b p c show ?thesis by blast
qed

text \<open>
  Claim C9 as the specification words it asks for a failed parse to fail the operation.
  On a file whose text is not JSON the read succeeds with no records instead.
\<close>

theorem parse_failure_counterexample:
  "readMessages (\<lparr>contents = Garbage, writable = True\<rparr> :: chat_msg storage) = Inr [] \<and>
   getMessages None False (\<lparr>contents = Garbage, writable = True\<rparr> :: chat_msg storage) = Inr [] \<and>
   getAllMessages None
     (sample_world\<lparr>messageStorage := \<lparr>contents = Garbage, writable = True\<rparr>\<rparr>) = Inr []"
  by (simp add: readMessages_def getMessages_def getAllMessages_def)

section \<open>The claim about the title of a request log entry\<close>

lemma split_on_not_Nil: "split_on P s \<noteq> []"
  by (induction s) (auto split: list.split)

lemma length_split_on: "length (split_on P s) = Suc (length (filter P s))"
proof (induction s)
  case Nil
  show ?case by simp
next
  case (Cons c cs)
  obtain w ws where "split_on P cs = w # ws"
    using split_on_not_Nil [of P cs] by (cases "split_on P cs") auto
  with Cons show ?case by auto
qed

lemma join_space_Cons_Cons: "join_space ((c # w) # ws) = c # join_space (w # ws)"
  by (cases ws) simp_all

lemma join_space_split_on: "join_space (split_on (\<lambda>c. c = CHR '' '') s) = s"
proof (induction s)
  case Nil
  show ?case by simp
next
  case (Cons c cs)
  obtain w ws where sp: "split_on (\<lambda>c. c = CHR '' '') cs = w # ws"
    using split_on_not_Nil [of _ cs] by (cases "split_on (\<lambda>c. c = CHR '' '') cs") auto
  show ?case
  proof (cases "c = CHR '' ''")
    case True
    with sp Cons show ?thesis by simp
  next
    case False
    with sp Cons show ?thesis by (simp add: join_space_Cons_Cons)
  qed
qed

lemma join_space_append:
  "xs \<noteq> [] \<Longrightarrow> ys \<noteq> [] \<Longrightarrow>
   join_space (xs @ ys) = join_space xs @ CHR '' '' # join_space ys"
proof (induction xs rule: join_space.induct)
  case 1
  then show ?case by simp
next
  case (2 w)
  then show ?case by (cases ys) simp_all
next
  case (3 w v ws)
  then show ?case by simp
qed

lemma titleWords_cases:
  "(count_list s (CHR '' '') < 5 \<and> titleWords s = s) \<or>
   (5 \<le> count_list s (CHR '' '') \<and> (\<exists>rest. s = titleWords s @ CHR '' '' # rest))"
proof -
  let ?ws = "split_on (\<lambda>c. c = CHR '' '') s"
  have "count_list s (CHR '' '') = length (filter (\<lambda>c. c = CHR '' '') s)"
    by (induction s) simp_all
  then have len: "length ?ws = Suc (count_list s (CHR '' ''))"
    by (simp add: length_split_on)
  show ?thesis
  proof (cases "count_list s (CHR '' '') < 5")
    case True
    with len have "take 5 ?ws = ?ws" by simp
    then have "titleWords s = s"
      by (simp add: titleWords_def join_space_split_on)
    with True show ?thesis by simp
  next
    case False
    with len have t: "take 5 ?ws \<noteq> []" and d: "drop 5 ?ws \<noteq> []" by auto
    have "s = join_space (take 5 ?ws @ drop 5 ?ws)"
      by (simp add: join_space_split_on)
    also have "\<dots> = join_space (take 5 ?ws) @ CHR '' '' # join_space (drop 5 ?ws)"
      using t d by (rule join_space_append)
    finally have "s = titleWords s @ CHR '' '' # join_space (drop 5 ?ws)"
      by (simp add: titleWords_def)
    with False show ?thesis by auto
  qed
qed

lemma titleWords_prefix: "prefix (titleWords s) s"
  using titleWords_cases [of s] by (auto simp: prefix_def)

lemma titleWords_shorter:
  "length (titleWords s) < length s \<longleftrightarrow> 5 \<le> count_list s (CHR '' '')"
proof -
  from titleWords_cases [of s] show ?thesis
  proof (elim disjE conjE exE)
    assume "count_list s (CHR '' '') < 5" "titleWords s = s"
    then show ?thesis by simp
  next
    fix rest
    assume a: "5 \<le> count_list s (CHR '' '')" and s: "s = titleWords s @ CHR '' '' # rest"
    have "length s = length (titleWords s @ CHR '' '' # rest)"
      using s by simp
    then have "length (titleWords s) < length s" by simp
    with a show ?thesis by simp
  qed
qed

lemma storeRequest_logs:
  assumes "requestStorage w = Some st"
    and "readMessages st = Inr xs" and "writable st"
    and "responseContent d = Inr rc"
  shows "requestStorage (storeRequest e rq d w) =
           Some (st\<lparr>contents := Json (xs @
             [\<lparr>msg_id = maxId xs + 1,
               body = \<lparr>title = requestTitle
                          (if length (filter (\<lambda>msg. role msg = ''user'') (messages rq)) > 0
                           then content (last (filter (\<lambda>msg. role msg = ''user'') (messages rq)))
                           else []),
                        request = rq, response = d\<rparr>,
               timestamp = clock e\<rparr>])\<rparr>)"
  using assms(1,4)
    addMessage_ok [OF assms(2,3), of "clock e"
      "\<lparr>payload = \<lparr>title = requestTitle
                          (if length (filter (\<lambda>msg. role msg = ''user'') (messages rq)) > 0
                           then content (last (filter (\<lambda>msg. role msg = ''user'') (messages rq)))
                           else []),
                        request = rq, response = d\<rparr>,
        timestamp_opt = Some (clock e)\<rparr>"]
  by (simp add: storeRequest_def Let_def)

lemma sendMessage_requestStorage:
  assumes "post e \<lparr>messages = msgs, model = llm_model e\<rparr> = Inr d"
  shows "requestStorage (snd (sendMessage e msgs w)) =
           requestStorage (storeRequest e \<lparr>messages = msgs, model = llm_model e\<rparr> d
                             (w\<lparr>posted := posted w @ [\<lparr>messages = msgs, model = llm_model e\<rparr>]\<rparr>))"
  using assms by (simp add: sendMessage_def Let_def)

lemma requestTitle_example: "requestTitle ''a  b c d e f'' = ''a  b c d...''"
  by (simp add: requestTitle_def titleWords_def)

lemma whitespace_words_example:
  "whitespace_words ''a  b c d e f'' = [''a'', ''b'', ''c'', ''d'', ''e'', ''f'']"
  by (simp add: whitespace_words_def is_whitespace_def)

lemma spec_title_example: "spec_title ''a  b c d e f'' = ''a b c d e...''"
  by (simp add: spec_title_def whitespace_words_example Let_def)

text \<open>
  Claim C10, as the code has it. After a post that succeeds, with a response whose
  content \<open>storeRequest\<close> can read and a request storage that can be read and written,
  the request storage gains one entry. Its title is made from the content of the last
  message with role \<open>user\<close>: the first five pieces of the content cut at every single
  space character, joined by single spaces, followed by \<open>...\<close> exactly when the content
  is longer than that prefix, which is when it holds at least five spaces. The pieces
  joined again give the content back, so the part before the dots is a prefix of it.
\<close>

theorem request_title_five_segments:
  assumes "requestStorage w = Some st"
    and "readMessages st = Inr xs" and "writable st"
    and "post e \<lparr>messages = msgs, model = llm_model e\<rparr> = Inr d"
    and "responseContent d = Inr rc"
    and "filter (\<lambda>msg. role msg = ''user'') msgs = us @ [lastUser]"
  shows "requestStorage (snd (sendMessage e msgs w)) =
           Some (st\<lparr>contents := Json (xs @
             [\<lparr>msg_id = maxId xs + 1,
               body = \<lparr>title = requestTitle (content lastUser),
                        request = \<lparr>messages = msgs, model = llm_model e\<rparr>,
                        response = d\<rparr>,
               timestamp = clock e\<rparr>])\<rparr>) \<and>
         requestTitle (content lastUser) =
           join_space (take 5 (split_on (\<lambda>c. c = CHR '' '') (content lastUser))) @
           (if 5 \<le> count_list (content lastUser) (CHR '' '') then ''...'' else []) \<and>
         prefix (join_space (take 5 (split_on (\<lambda>c. c = CHR '' '') (content lastUser))))
           (content lastUser) \<and>
         (length (join_space (take 5 (split_on (\<lambda>c. c = CHR '' '') (content lastUser))))
            < length (content lastUser)
          \<longleftrightarrow> 5 \<le> count_list (content lastUser) (CHR '' '')) \<and>
         join_space (split_on (\<lambda>c. c = CHR '' '') (content lastUser)) = content lastUser"
proof -
  let ?rq = "\<lparr>messages = msgs, model = llm_model e\<rparr>"
  let ?w1 = "w\<lparr>posted := posted w @ [?rq]\<rparr>"
  have rs: "requestStorage ?w1 = Some st" using assms(1) by simp
  have "requestStorage (snd (sendMessage e msgs w)) =
          requestStorage (storeRequest e ?rq d ?w1)"
    using assms(4) by (rule sendMessage_requestStorage)
  also have "\<dots> = Some (st\<lparr>contents := Json (xs @
             [\<lparr>msg_id = maxId xs + 1,
               body = \<lparr>title = requestTitle (content lastUser),
                        request = ?rq, response = d\<rparr>,
               timestamp = clock e\<rparr>])\<rparr>)"
    using storeRequest_logs [OF rs assms(2,3,5), of e ?rq] assms(6) by simp
  finally have stored: "requestStorage (snd (sendMessage e msgs w)) =
           Some (st\<lparr>contents := Json (xs @
             [\<lparr>msg_id = maxId xs + 1,
               body = \<lparr>title = requestTitle (content lastUser),
                        request = ?rq, response = d\<rparr>,
               timestamp = clock e\<rparr>])\<rparr>)" .
  have t: "join_space (take 5 (split_on (\<lambda>c. c = CHR '' '') (content lastUser))) =
           titleWords (content lastUser)"
    by (simp add: titleWords_def)
  have title: "requestTitle (content lastUser) =
           titleWords (content lastUser) @
           (if 5 \<le> count_list (content lastUser) (CHR '' '') then ''...'' else [])"
    unfolding requestTitle_def titleWords_shorter [symmetric] by simp
  show ?thesis
    unfolding t
    using stored title titleWords_prefix [of "content lastUser"]
      titleWords_shorter [of "content lastUser"]
      join_space_split_on [of "content lastUser"]
    by blast
qed

theorem request_title_five_segments_witness:
  "requestStorage sample_world = Some \<lparr>contents = Json [], writable = True\<rparr> \<and>
   readMessages \<lparr>contents = Json [], writable = True\<rparr> = (Inr [] :: error + request_log stored list) \<and>
   writable \<lparr>contents = (Json [] :: request_log file_data), writable = True\<rparr> \<and>
   post sample_env \<lparr>messages = [\<lparr>role = ''user'', content = ''a  b c d e f''\<rparr>],
                     model = llm_model sample_env\<rparr> =
     Inr (Data (Some [Choice (Some \<lparr>role = ''assistant'', content = ''hello''\<rparr>)])) \<and>
   responseContent (Data (Some [Choice (Some \<lparr>role = ''assistant'', content = ''hello''\<rparr>)])) =
     Inr ''hello'' \<and>
   filter (\<lambda>msg. role msg = ''user'') [\<lparr>role = ''user'', content = ''a  b c d e f''\<rparr>] =
     [] @ [\<lparr>role = ''user'', content = ''a  b c d e f''\<rparr>] \<and>
   requestStorage (snd (sendMessage sample_env
                          [\<lparr>role = ''user'', content = ''a  b c d e f''\<rparr>] sample_world)) =
     Some \<lparr>contents = Json
             [\<lparr>msg_id = 1,
               body = \<lparr>title = ''a  b c d...'',
                        request = \<lparr>messages = [\<lparr>role = ''user'', content = ''a  b c d e f''\<rparr>],
                                    model = ''gpt-4o-mini''\<rparr>,
                        response = Data (Some [Choice (Some \<lparr>role = ''assistant'',
                                                               content = ''hello''\<rparr>)])\<rparr>,
               timestamp = ''2025-01-01T00:00:00.000Z''\<rparr>],
            writable = True\<rparr>"
proof -
  let ?st = "\<lparr>contents = (Json [] :: request_log file_data), writable = True\<rparr>"
  let ?m = "\<lparr>role = ''user'', content = ''a  b c d e f''\<rparr>"
  let ?d = "Data (Some [Choice (Some \<lparr>role = ''assistant'', content = ''hello''\<rparr>)])"
  have h1: "requestStorage sample_world = Some ?st" by (rule sample_requestStorage)
  have h2: "readMessages ?st = Inr []" by (simp add: readMessages_def)
  have h3: "writable ?st" by simp
  have h4: "post sample_env \<lparr>messages = [?m], model = llm_model sample_env\<rparr> = Inr ?d"
    by (rule sample_post)
  have h5: "responseContent ?d = Inr ''hello''" by (simp add: responseContent_def)
  have h6: "filter (\<lambda>msg. role msg = ''user'') [?m] = [] @ [?m]" by simp
  from request_title_five_segments [OF h1 h2 h3 h4 h5 h6]
  have "requestStorage (snd (sendMessage sample_env [?m] sample_world)) =
          Some (?st\<lparr>contents := Json ([] @
             [\<lparr>msg_id = maxId ([] :: request_log stored list) + 1,
               body = \<lparr>title = requestTitle (content ?m),
                        request = \<lparr>messages = [?m], model = llm_model sample_env\<rparr>,
                        response = ?d\<rparr>,
               timestamp = clock sample_env\<rparr>])\<rparr>)"
    by (rule conjunct1)
  then have "requestStorage (snd (sendMessage sample_env [?m] sample_world)) =
          Some \<lparr>contents = Json
             [\<lparr>msg_id = 1,
               body = \<lparr>title = ''a  b c d...'',
                        request = \<lparr>messages = [?m], model = ''gpt-4o-mini''\<rparr>,
                        response = ?d\<rparr>,
               timestamp = ''2025-01-01T00:00:00.000Z''\<rparr>],
            writable = True\<rparr>"
    by (simp add: maxId_Nil requestTitle_example sample_model sample_clock)
  with h1 h2 h3 h4 h5 h6 show ?thesis by simp
qed

text \<open>
  Claim C10 as the specification words it takes the first five whitespace-separated
  words. With two spaces in a row the code counts an empty piece as a word: for
  \<open>a  b c d e f\<close> the stored title is \<open>a  b c d...\<close>, four words, where the first five
  words are \<open>a b c d e\<close>.
\<close>

theorem request_title_counterexample:
  "requestTitle ''a  b c d e f'' = ''a  b c d...'' \<and>
   whitespace_words ''a  b c d e f'' = [''a'', ''b'', ''c'', ''d'', ''e'', ''f''] \<and>
   spec_title ''a  b c d e f'' = ''a b c d e...'' \<and>
   requestTitle ''a  b c d e f'' \<noteq> spec_title ''a  b c d e f''"
  by (simp add: requestTitle_example whitespace_words_example spec_title_example)

end
